theory Spec2Isabelle
  imports Main "HOL-Library.Sublist"
begin

section \<open>Values shared by both packages\<close>

text \<open>
  Go errors are values.  \<open>ErrorString\<close> stands for \<^verbatim>\<open>errors.New\<close> and for
  \<^verbatim>\<open>fmt.Errorf\<close> without a wrapped cause, \<open>Wrapped\<close> for \<^verbatim>\<open>fmt.Errorf("... %w", err)\<close>
  and \<open>UrlError op url cause\<close> for the \<^verbatim>\<open>*url.Error\<close> the HTTP client reports.
\<close>

datatype error =
    ErrorString string
  | Wrapped string error
  | UrlError string string error

text \<open>
  A Go function either returns or panics (a nil pointer is dereferenced, a nil function
  is called).  \<open>Panic\<close> is the second case.
\<close>

datatype 'a outcome = Panic | Returns 'a

text \<open>\<^verbatim>\<open>time.Time\<close>, as an instant on a line; instants are only compared.\<close>

type_synonym time = int

text \<open>
  A logger only consumes messages.  The calls to \<^verbatim>\<open>Debugf\<close> are left out; the logger
  itself is passed along wherever the source passes it.
\<close>

datatype Logger = DefaultLogger | CustomLogger nat

datatype Context = Background | Cancellable nat

datatype CookieJar = CookieJar string

section \<open>Package client: configuration\<close>

text \<open>
  The types of package client, and of the SDK and package credentials beside it, that
  do not mention the authentication client.
\<close>

subsection \<open>Configuration and options\<close>

text \<open>\<^verbatim>\<open>time.Duration\<close>; durations are only stored and compared.\<close>

type_synonym Duration = int

text \<open>
  \<^verbatim>\<open>config.AwsConfig\<close> and \<^verbatim>\<open>config.AwsCredentials\<close> with the fields the factory reads.
\<close>

record AwsConfig =
  ProfileName :: string
  RoleArn :: string
  Region :: string
  SamlUrl :: string
  SamlUsername :: string
  SamlProvider :: string
  WebIdentityUrl :: string
  WebIdentityUsername :: string
  WebIdentityProvider :: string
  WebIdentityClientId :: string
  WebIdentityRedirectUri :: string
  WebIdentityTokenFile :: string
  JumpRoleArn :: string
  FederatedUsername :: string
  MfaCode :: string
  MfaType :: string
  MfaSerial :: string
  RoleSessionName :: string
  ExternalId :: string
  SrcProfile :: string
  SessionTokenDuration :: Duration

record AwsCredentials =
  SamlPassword :: string
  WebIdentityPassword :: string

text \<open>\<^verbatim>\<open>Options\<close>: what the caller of the factory chooses.\<close>

record Options =
  AwsLogLevel :: nat
  Logger :: Logger
  CommandCredentials :: "AwsCredentials option"
  MfaInputProvider :: "(unit \<Rightarrow> error + string) option"
  CredentialInputProvider :: "(string \<Rightarrow> string \<Rightarrow> error + string \<times> string) option"
  EnableCache :: bool

text \<open>
  The factory holds a resolver, of which only the \<^verbatim>\<open>Credentials\<close> method is used, and
  a pointer to its options, taken to be non-nil.
\<close>

record Factory =
  resolver :: "string \<Rightarrow> error + AwsCredentials"
  options :: Options

subsection \<open>Sessions, caches, client configurations and providers\<close>

text \<open>A credential cache is a file, known by its name.\<close>

datatype CredentialCacher = NewFileCredentialCache string

text \<open>
  The SDK's \<^verbatim>\<open>aws.Config\<close> and \<^verbatim>\<open>session.Options\<close> with the fields \<open>Get\<close> sets.
\<close>

record aws_Config =
  CredentialsChainVerboseErrors :: bool
  Region :: string
  LogLevel :: nat
  Logger :: Logger

datatype SharedConfigState = SharedConfigStateFromEnv | SharedConfigDisable | SharedConfigEnable

record session_Options =
  Config :: aws_Config
  Profile :: string
  SharedConfigState :: SharedConfigState

text \<open>
  The configurations of the Session-Token and Assume-Role clients are declared outside
  the files at hand; their fields are the ones the factory's struct literals name, the
  second embedding the first.
\<close>

record SessionTokenClientConfig =
  Logger :: Logger
  Cache :: "CredentialCacher option"
  Duration :: Duration
  SerialNumber :: string
  TokenCode :: string
  TokenProvider :: "(unit \<Rightarrow> error + string) option"

record AssumeRoleClientConfig = SessionTokenClientConfig +
  RoleArn :: string
  RoleSessionName :: string
  ExternalId :: string

text \<open>
  Modelled from the spec: the SAML role provider of package credentials is declared
  outside the files at hand.  A provider wraps an assertion (a pointer, nil being
  \<open>None\<close>), a target role ARN, a duration and a cache; these and the logger are the
  fields the source sets.
\<close>

record SamlRoleProvider =
  RoleArn :: string
  samlAssertion :: "string option"
  Duration :: Duration
  Cache :: "CredentialCacher option"
  Logger :: Logger

text \<open>
  Modelled from the spec: the Web Identity role provider, declared outside the files
  at hand, wraps an identity token in the same way.
\<close>

record WebRoleProvider =
  RoleArn :: string
  webIdentityToken :: "string option"
  Duration :: Duration
  Cache :: "CredentialCacher option"
  Logger :: Logger

text \<open>
  The credentials object of a session: what the SDK resolved or a client built
  (known by a handle only), or \<^verbatim>\<open>awscred.NewCredentials\<close> of a role provider.
\<close>

datatype Credentials =
    SdkCredentials nat
  | SamlRoleCredentials SamlRoleProvider
  | WebRoleCredentials WebRoleProvider

text \<open>
  A session of the SDK: the options it was made from and its \<^verbatim>\<open>Config.Credentials\<close>,
  which the factory overwrites.
\<close>

record Session =
  Options :: session_Options
  Credentials :: Credentials

section \<open>Package external: the base authentication client\<close>

subsection \<open>Data\<close>

text \<open>
  \<^verbatim>\<open>AuthenticationClientConfig\<close> with the fields the factory fills in.  A provider is a
  Go function value and may be nil (\<open>None\<close>).  The credential-input provider gets the
  current user name and password and answers with both, or with an error; the MFA
  provider takes no argument.
\<close>

record AuthenticationClientConfig =
  Username :: string
  Password :: string
  MfaTokenCode :: string
  MfaTokenProvider :: "(unit \<Rightarrow> error + string) option"
  MfaType :: string
  CredentialInputProvider :: "(string \<Rightarrow> string \<Rightarrow> error + string \<times> string) option"
  IdentityProviderName :: string
  FederatedUsername :: string
  Logger :: Logger

record OidcClientConfig = AuthenticationClientConfig +
  ClientId :: string
  RedirectUri :: string
  Scopes :: "string list"

text \<open>
  Modelled from the spec: the constant \<^verbatim>\<open>MfaTypeCode\<close> is declared outside the files at
  hand; the MFA type is one of none, code and auto, and the spec names the value
  compared here "code".
\<close>

definition MfaTypeCode :: string where
  "MfaTypeCode = ''code''"

record URL =
  Scheme :: string
  Host :: string
  Path :: string
  RawQuery :: string

text \<open>\<^verbatim>\<open>url.Values\<close>: keys with their lists of values.\<close>

type_synonym Values = "(string \<times> string list) list"

datatype RedirectPolicy = UseLastResponse | OtherPolicy nat

record http_Client =
  Jar :: "CookieJar option"
  CheckRedirect :: "RedirectPolicy option"

record Request =
  Method :: string
  RequestURL :: string
  Ctx :: Context

record Response =
  StatusCode :: int
  Status :: string
  Body :: string

text \<open>
  \<^verbatim>\<open>baseClient\<close> embeds \<^verbatim>\<open>OidcClientConfig\<close>.  \<open>httpClient\<close> and \<open>saml\<close> are pointers:
  \<open>None\<close> is nil, and \<open>Some []\<close> is a pointer to the empty assertion.
\<close>

record baseClient = OidcClientConfig +
  authUrl :: URL
  entityId :: string
  httpClient :: "http_Client option"
  saml :: "string option"

text \<open>
  A parsed HTML document: elements with their attributes in source order, and text.
\<close>

datatype Node = Element string "(string \<times> string) list" "Node list" | Text string

text \<open>
  What the package consumes from its libraries and from the rest of the repository.
  Each field is the result the callee gives on the arguments shown in the source:
  the assertion's expiry, the two request constructors, the HTTP round trip of a given
  client, the response check, the HTML parser, and the URL parser with the accessors
  of a parsed URL.
\<close>

record extern =
  ExpiresAt :: "string \<Rightarrow> error + time"
  newHttpRequest :: "Context \<Rightarrow> string \<Rightarrow> string \<Rightarrow> error + Request"
  NewRequestWithContext :: "Context \<Rightarrow> string \<Rightarrow> string \<Rightarrow> error + Request"
  Do :: "http_Client \<Rightarrow> Request \<Rightarrow> error + Response"
  checkResponseError :: "error + Response \<Rightarrow> error + Response"
  NewDocumentFromReader :: "string \<Rightarrow> error + Node"
  url_Parse :: "string \<Rightarrow> error + URL"
  URL_String :: "URL \<Rightarrow> string"
  URL_Query :: "URL \<Rightarrow> Values"
  Values_Encode :: "Values \<Rightarrow> string"
  Location :: "Response \<Rightarrow> error + URL"

text \<open>
  The mutable surroundings of a call: the clock read by \<^verbatim>\<open>time.Now()\<close> and the requests
  handed to an HTTP client so far, oldest first.
\<close>

record world =
  now :: time
  sent :: "Request list"

subsection \<open>SetCookieJar\<close>

text \<open>\<^verbatim>\<open>http.DefaultClient\<close> as the library declares it: no jar, no redirect policy.\<close>

definition DefaultClient :: http_Client where
  "DefaultClient = \<lparr>Jar = None, CheckRedirect = None\<rparr>"

definition SetCookieJar :: "'a baseClient_scheme \<Rightarrow> CookieJar \<Rightarrow> 'a baseClient_scheme" where
  "SetCookieJar c jar =
     (let h = (case httpClient c of None \<Rightarrow> DefaultClient | Some h \<Rightarrow> h)
      in c\<lparr>httpClient := Some (h\<lparr>Jar := Some jar\<rparr>)\<rparr>)"

subsection \<open>handleSamlResponse\<close>

text \<open>
  \<^verbatim>\<open>doc.Find("input")\<close> selects the descendant elements named \<open>input\<close> in document
  order; \<^verbatim>\<open>s.Attr(k)\<close> gives the first attribute with key \<open>k\<close>.
\<close>

fun descendants :: "Node \<Rightarrow> Node list" where
  "descendants (Element t as cs) = concat (map (\<lambda>c. c # descendants c) cs)"
| "descendants (Text s) = []"

fun is_element :: "string \<Rightarrow> Node \<Rightarrow> bool" where
  "is_element sel (Element t as cs) = (t = sel)"
| "is_element sel (Text s) = False"

definition Find :: "string \<Rightarrow> Node \<Rightarrow> Node list" where
  "Find sel doc = filter (is_element sel) (descendants doc)"

fun Attr :: "Node \<Rightarrow> string \<Rightarrow> string option" where
  "Attr (Element t as cs) k = map_of as k"
| "Attr (Text s) k = None"

text \<open>
  The body of the callback given to \<^verbatim>\<open>Each\<close>: an element whose \<open>name\<close> attribute is
  \<open>SAMLResponse\<close> stores its \<open>value\<close> attribute (the empty string when it has none)
  as the held assertion.
\<close>

definition each_input :: "'a baseClient_scheme \<Rightarrow> Node \<Rightarrow> 'a baseClient_scheme" where
  "each_input c s =
     (case Attr s ''name'' of
        Some a \<Rightarrow>
          if a = ''SAMLResponse''
          then (let v = (case Attr s ''value'' of Some v \<Rightarrow> v | None \<Rightarrow> [])
                in c\<lparr>saml := Some v\<rparr>)
          else c
      | None \<Rightarrow> c)"

definition handleSamlResponse ::
  "extern \<Rightarrow> 'a baseClient_scheme \<Rightarrow> string \<Rightarrow> error option \<times> 'a baseClient_scheme" where
  "handleSamlResponse ext c r =
     (case NewDocumentFromReader ext r of
        Inl err \<Rightarrow> (Some err, c)
      | Inr doc \<Rightarrow> (None, foldl each_input c (Find ''input'' doc)))"

subsection \<open>samlRequest\<close>

text \<open>
  The result is the returned error (\<open>None\<close> is nil), the client and the world after
  the call.  A request is logged in \<open>sent\<close> at the moment it is handed to the client.
  \<open>samlRequest_fetch\<close> is the function from the construction of the request on,
  reached when no held assertion is still valid.  Calling \<^verbatim>\<open>Do\<close> on a nil client
  dereferences it.
\<close>

definition samlRequest_fetch ::
  "extern \<Rightarrow> Context \<Rightarrow> URL \<Rightarrow> 'a baseClient_scheme \<times> world \<Rightarrow>
     (error option \<times> 'a baseClient_scheme \<times> world) outcome" where
  "samlRequest_fetch ext ctx u cw =
     (let c = fst cw; w = snd cw
      in case newHttpRequest ext ctx ''GET'' (URL_String ext u) of
           Inl err \<Rightarrow> Returns (Some err, c, w)
         | Inr req \<Rightarrow>
             (case httpClient c of
                None \<Rightarrow> Panic
              | Some h \<Rightarrow>
                  let w' = w\<lparr>sent := sent w @ [req]\<rparr> in
                  (case checkResponseError ext (Do ext h req) of
                     Inl err \<Rightarrow> Returns (Some (Wrapped ''SAML request error '' err), c, w')
                   | Inr res \<Rightarrow>
                       (case handleSamlResponse ext c (Body res) of
                          (e, c') \<Rightarrow> Returns (e, c', w')))))"

definition samlRequest ::
  "extern \<Rightarrow> Context \<Rightarrow> URL \<Rightarrow> 'a baseClient_scheme \<times> world \<Rightarrow>
     (error option \<times> 'a baseClient_scheme \<times> world) outcome" where
  "samlRequest ext ctx u cw =
     (let c = fst cw; w = snd cw
      in case saml c of
           None \<Rightarrow> samlRequest_fetch ext ctx u cw
         | Some a \<Rightarrow>
             if length a > 0
             then (case ExpiresAt ext a of
                     Inl err \<Rightarrow> Returns (Some err, c, w)
                   | Inr t \<Rightarrow>
                       if t > now w then Returns (None, c, w)
                       else samlRequest_fetch ext ctx u cw)
             else samlRequest_fetch ext ctx u cw)"

subsection \<open>oauthAuthorize\<close>

text \<open>
  The client is chosen from the flag: a redirect-following call must not carry a
  redirect policy, the other must.  Reading \<^verbatim>\<open>CheckRedirect\<close> of a nil client panics.
\<close>

definition authorize_client :: "http_Client \<Rightarrow> bool \<Rightarrow> http_Client" where
  "authorize_client h followRedirect =
     (if followRedirect
      then (if CheckRedirect h \<noteq> None then \<lparr>Jar = Jar h, CheckRedirect = None\<rparr> else h)
      else (if CheckRedirect h = None
            then \<lparr>Jar = Jar h, CheckRedirect = Some UseLastResponse\<rparr> else h))"

text \<open>
  The returned pair is Go's \<^verbatim>\<open>(url.Values, error)\<close>: \<open>None\<close> for the nil map, which
  differs from the empty map \<open>Some []\<close> returned beside the request-construction
  error.  \<^verbatim>\<open>redirUri.Query()\<close> on the nil URL of a failed parse panics.
\<close>

definition StatusFound :: int where
  "StatusFound = 302"

definition oauthAuthorize ::
  "extern \<Rightarrow> 'a baseClient_scheme \<times> world \<Rightarrow> string \<Rightarrow> Values \<Rightarrow> bool \<Rightarrow>
     ((Values option \<times> error option) \<times> world) outcome" where
  "oauthAuthorize ext cw ep data followRedirect =
     (let c = fst cw; w = snd cw
      in case httpClient c of
           None \<Rightarrow> Panic
         | Some h0 \<Rightarrow>
             let h = authorize_client h0 followRedirect in
             (case url_Parse ext ep of
                Inl err \<Rightarrow> Returns ((None, Some err), w)
              | Inr u0 \<Rightarrow>
                  let u = u0\<lparr>RawQuery := Values_Encode ext data\<rparr> in
                  (case NewRequestWithContext ext Background ''GET'' (URL_String ext u) of
                     Inl err \<Rightarrow> Returns ((Some [], Some err), w)
                   | Inr req \<Rightarrow>
                       let w' = w\<lparr>sent := sent w @ [req]\<rparr> in
                       (case Do ext h req of
                          Inl err \<Rightarrow>
                            (case err of
                               UrlError op target cause \<Rightarrow>
                                 if prefix (RedirectUri c) target
                                 then (case url_Parse ext target of
                                         Inl perr \<Rightarrow> Panic
                                       | Inr redirUri \<Rightarrow>
                                           Returns ((Some (URL_Query ext redirUri), None), w'))
                                 else Returns ((None, Some err), w')
                             | _ \<Rightarrow> Returns ((None, Some err), w'))
                        | Inr res \<Rightarrow>
                            if StatusCode res \<noteq> StatusFound
                            then Returns ((None, Some (ErrorString (''http status '' @ Status res))), w')
                            else (case Location ext res of
                                    Inl err \<Rightarrow> Returns ((None, Some err), w')
                                  | Inr redir \<Rightarrow>
                                      Returns ((Some (URL_Query ext redir), None), w'))))))"

subsection \<open>gatherCredentials\<close>

text \<open>
  The calls made to the two providers are returned beside the error and the client,
  in the order they were made.
\<close>

datatype provider_call = CredentialInput string string | MfaToken

definition gather_mfa ::
  "'a baseClient_scheme \<Rightarrow> provider_call list \<Rightarrow>
     error option \<times> 'a baseClient_scheme \<times> provider_call list" where
  "gather_mfa c calls =
     (let m = MfaTokenCode c
      in if MfaType c = MfaTypeCode \<and> length m < 1
         then (case MfaTokenProvider c of
                 None \<Rightarrow> (None, c, calls)
               | Some provider \<Rightarrow>
                   (case provider () of
                      Inl err \<Rightarrow> (Some err, c, calls @ [MfaToken])
                    | Inr m' \<Rightarrow> (None, c\<lparr>MfaTokenCode := m'\<rparr>, calls @ [MfaToken])))
         else (None, c, calls))"

definition gatherCredentials ::
  "'a baseClient_scheme \<Rightarrow>
     (error option \<times> 'a baseClient_scheme \<times> provider_call list) outcome" where
  "gatherCredentials c =
     (let u = Username c; p = Password c
      in if length u < 1 \<or> length p < 1
         then (case CredentialInputProvider c of
                 None \<Rightarrow> Panic
               | Some provider \<Rightarrow>
                   (case provider u p of
                      Inl err \<Rightarrow> Returns (Some err, c, [CredentialInput u p])
                    | Inr (u', p') \<Rightarrow>
                        Returns (gather_mfa (c\<lparr>Username := u', Password := p'\<rparr>)
                                   [CredentialInput u p])))
         else Returns (gather_mfa c []))"

subsection \<open>Vocabulary of the statements\<close>

text \<open>
  The inputs of a document that the callback of \<^verbatim>\<open>handleSamlResponse\<close> acts on, in
  document order, and the value such an input carries.
\<close>

definition named_SAMLResponse :: "Node \<Rightarrow> bool" where
  "named_SAMLResponse s = (Attr s ''name'' = Some ''SAMLResponse'')"

definition value_attr :: "Node \<Rightarrow> string" where
  "value_attr s = (case Attr s ''value'' of Some v \<Rightarrow> v | None \<Rightarrow> [])"

definition saml_inputs :: "Node \<Rightarrow> Node list" where
  "saml_inputs doc = filter named_SAMLResponse (Find ''input'' doc)"

section \<open>Libraries used by package client\<close>

subsection \<open>strings\<close>

text \<open>
  \<^verbatim>\<open>strings.Split\<close> and \<^verbatim>\<open>strings.SplitN\<close> for a separator of one byte, the only kind the
  source and the ARN package use.  \<^verbatim>\<open>Split\<close> always returns one string at least;
  \<^verbatim>\<open>SplitN\<close> with a count of \<open>n > 0\<close> returns \<open>n\<close> strings at most, the last one being
  the unsplit rest.
\<close>

fun Split :: "string \<Rightarrow> char \<Rightarrow> string list" where
  "Split [] sep = [[]]"
| "Split (x # xs) sep =
     (if x = sep then [] # Split xs sep
      else (case Split xs sep of
              p # ps \<Rightarrow> (x # p) # ps
            | [] \<Rightarrow> [[x]]))"

fun SplitN :: "string \<Rightarrow> char \<Rightarrow> nat \<Rightarrow> string list" where
  "SplitN s sep 0 = []"
| "SplitN s sep (Suc 0) = [s]"
| "SplitN [] sep (Suc (Suc n)) = [[]]"
| "SplitN (x # xs) sep (Suc (Suc n)) =
     (if x = sep then [] # SplitN xs sep (Suc n)
      else (case SplitN xs sep (Suc (Suc n)) of
              p # ps \<Rightarrow> (x # p) # ps
            | [] \<Rightarrow> [[x]]))"

subsection \<open>The AWS SDK's arn package\<close>

record ARN =
  Partition :: string
  Service :: string
  Region :: string
  AccountID :: string
  Resource :: string

definition arnPrefix :: string where
  "arnPrefix = ''arn:''"

definition arnSections :: nat where
  "arnSections = 6"

text \<open>
  \<^verbatim>\<open>arn.IsARN\<close>: the string starts with \<open>arn:\<close> and has five colons at least.
\<close>

definition IsARN :: "string \<Rightarrow> bool" where
  "IsARN a = (prefix arnPrefix a \<and> count_list a CHR '':'' \<ge> arnSections - 1)"

text \<open>
  \<^verbatim>\<open>arn.Parse\<close>: the string is cut at its first five colons into six sections, the
  last of which, the resource, may hold further colons.
\<close>

definition arn_Parse :: "string \<Rightarrow> error + ARN" where
  "arn_Parse a =
     (if \<not> prefix arnPrefix a then Inl (ErrorString ''arn: invalid prefix'')
      else (let sections = SplitN a CHR '':'' arnSections
            in if length sections \<noteq> arnSections then Inl (ErrorString ''arn: not enough sections'')
               else Inr \<lparr>Partition = sections ! 1, Service = sections ! 2, Region = sections ! 3,
                         AccountID = sections ! 4, Resource = sections ! 5\<rparr>))"

text \<open>The zero value \<^verbatim>\<open>ARN{}\<close> that comes with an error.\<close>

definition zero_ARN :: ARN where
  "zero_ARN = \<lparr>Partition = [], Service = [], Region = [], AccountID = [], Resource = []\<rparr>"

section \<open>Package client: the factory\<close>

subsection \<open>Clients\<close>

text \<open>
  \<^verbatim>\<open>SamlRoleClientConfig\<close> embeds the authentication configuration.
\<close>

record SamlRoleClientConfig = AuthenticationClientConfig +
  Cache :: "CredentialCacher option"
  Duration :: Duration
  RoleArn :: string

text \<open>
  Modelled from the spec: \<^verbatim>\<open>WebRoleClientConfig\<close> is declared outside the files at hand.
  The factory fills in the fields of an OIDC client configuration and these four.
\<close>

record WebRoleClientConfig = OidcClientConfig +
  Cache :: "CredentialCacher option"
  Duration :: Duration
  RoleArn :: string
  WebIdentityTokenFile :: string

text \<open>
  The identity source of a client: an identity-provider client, or an identity client
  of the AWS API known by a handle only.
\<close>

datatype IdentityClient =
    SamlIdentity baseClient
  | WebIdentity baseClient
  | AwsIdentity nat

text \<open>
  \<^verbatim>\<open>samlRoleClient\<close> as declared.  An identity-provider client of the interface
  \<^verbatim>\<open>external.SamlClient\<close> is a vendor's client around a \<open>baseClient\<close>, which is what
  stands for it here.
\<close>

record samlRoleClient =
  samlClient :: baseClient
  roleProvider :: SamlRoleProvider
  session :: Session

text \<open>
  Modelled from the spec: the other three client types are declared outside the files
  at hand.  The factory reads and writes \<open>webClient\<close>, \<open>roleProvider\<close>, \<open>ident\<close>
  and \<open>creds\<close>; \<open>session\<close> and \<open>config\<close> keep what a client is built from.
\<close>

record webRoleClient =
  webClient :: baseClient
  roleProvider :: WebRoleProvider
  session :: Session

record assumeRoleClient =
  session :: Session
  config :: AssumeRoleClientConfig
  ident :: IdentityClient

record sessionTokenClient =
  session :: Session
  config :: SessionTokenClientConfig
  creds :: Credentials
  ident :: IdentityClient

text \<open>The interface \<^verbatim>\<open>AwsClient\<close>: one of the four clients.\<close>

datatype AwsClient =
    SamlRoleClient samlRoleClient
  | WebRoleClient webRoleClient
  | AssumeRoleClient assumeRoleClient
  | SessionTokenClient sessionTokenClient

subsection \<open>What the factory consumes\<close>

text \<open>
  \<^verbatim>\<open>identity.Identity\<close> with the fields the base client fills in; the field
  \<^verbatim>\<open>Username\<close> is \<open>IdentityUsername\<close> here.
\<close>

record Identity =
  IdentityType :: string
  Provider :: string
  IdentityUsername :: string

text \<open>
  Results of the collaborators that are not in the files at hand: the shared
  configuration file name and the process environment, two functions of
  \<^verbatim>\<open>path/filepath\<close>, the validity check and the role credential duration of a
  configuration, the default (and chained maximum) assume-role duration, the merge of
  command-line credentials, the password decoder keyed by a URL, the SDK's session
  constructor, the constructors of the two identity-provider clients (which panic on an
  unknown provider), the assertion and token fetches, the credentials and identity
  objects a client of the AWS API builds over its session, and the answers an identity
  source gives to \<^verbatim>\<open>Identity()\<close> and \<^verbatim>\<open>Roles()\<close>.
\<close>

record consumed =
  SharedConfigFilename :: string
  LookupEnv :: "string \<Rightarrow> string option"
  filepath_Dir :: "string \<Rightarrow> string"
  filepath_Join :: "string list \<Rightarrow> string"
  Validate :: "AwsConfig \<Rightarrow> error option"
  RoleCredentialDuration :: "AwsConfig \<Rightarrow> Duration"
  AssumeRoleDurationDefault :: Duration
  MergeIn :: "AwsCredentials \<Rightarrow> AwsCredentials option \<Rightarrow> AwsCredentials"
  Decode :: "string \<Rightarrow> string \<Rightarrow> error + string"
  NewSessionWithOptions :: "session_Options \<Rightarrow> error + Session"
  MustGetSamlClient :: "string \<Rightarrow> string \<Rightarrow> AuthenticationClientConfig \<Rightarrow> baseClient outcome"
  MustGetWebIdentityClient :: "string \<Rightarrow> string \<Rightarrow> OidcClientConfig \<Rightarrow> baseClient outcome"
  SamlAssertion :: "baseClient \<Rightarrow> string option \<times> error option"
  FetchToken :: "webRoleClient \<Rightarrow> error + string"
  client_credentials :: "Session \<Rightarrow> SessionTokenClientConfig \<Rightarrow> Credentials"
  client_identity :: "Session \<Rightarrow> IdentityClient"
  Identity :: "IdentityClient \<Rightarrow> error + Identity"
  Roles :: "IdentityClient \<Rightarrow> error + string list"

subsection \<open>Cache file names\<close>

definition cachePath :: "consumed \<Rightarrow> string" where
  "cachePath d =
     (let f = SharedConfigFilename d;
          f = (case LookupEnv d ''AWS_CONFIG_FILE'' of Some v \<Rightarrow> v | None \<Rightarrow> f)
      in filepath_Dir d f)"

text \<open>
  \<^verbatim>\<open>roleParts[len(roleParts)-1]\<close> is the last element: \<open>Split\<close> never returns the
  empty list (lemma \<open>Split_not_Nil\<close> below), so the index is in range.  The error of
  \<^verbatim>\<open>arn.Parse\<close> is dropped, leaving the zero ARN.
\<close>

definition cacheFileName :: "consumed \<Rightarrow> string \<Rightarrow> string \<Rightarrow> string \<Rightarrow> string" where
  "cacheFileName d pre profile role =
     (let profile =
            (if length profile < 1 \<and> IsARN role
             then (let roleArn = (case arn_Parse role of Inr a \<Rightarrow> a | Inl err \<Rightarrow> zero_ARN);
                       roleParts = Split (Resource roleArn) CHR ''/''
                   in AccountID roleArn @ ''-'' @ last roleParts)
             else profile)
      in filepath_Join d [cachePath d, pre @ ''_'' @ profile])"

text \<open>The package's single cookie jar.\<close>

definition cookieJar :: "consumed \<Rightarrow> CookieJar" where
  "cookieJar d = CookieJar (filepath_Join d [cachePath d, ''.aws_runas.cookies''])"

subsection \<open>Client constructors\<close>

text \<open>
  \<^verbatim>\<open>NewSamlRoleClient\<close>.  The provider is built for the configured role ARN around a
  fresh, empty assertion, then given the duration, the cache and the logger; the
  identity-provider client gets the embedded authentication configuration.
\<close>

definition NewSamlRoleClient ::
  "consumed \<Rightarrow> Session \<Rightarrow> string \<Rightarrow> SamlRoleClientConfig \<Rightarrow> samlRoleClient outcome" where
  "NewSamlRoleClient d cfg url clientCfg =
     (let p = \<lparr>SamlRoleProvider.RoleArn = SamlRoleClientConfig.RoleArn clientCfg,
               samlAssertion = Some [],
               SamlRoleProvider.Duration = SamlRoleClientConfig.Duration clientCfg,
               SamlRoleProvider.Cache = SamlRoleClientConfig.Cache clientCfg,
               SamlRoleProvider.Logger = Logger clientCfg\<rparr>
      in case MustGetSamlClient d (IdentityProviderName clientCfg) url
                (AuthenticationClientConfig.truncate clientCfg) of
           Panic \<Rightarrow> Panic
         | Returns sc \<Rightarrow>
             Returns \<lparr>samlClient = sc, samlRoleClient.roleProvider = p, samlRoleClient.session = cfg\<rparr>)"

text \<open>
  Modelled from the spec: \<^verbatim>\<open>NewWebRoleClient\<close> is outside the files at hand.  The
  Web/OIDC-role client is the SAML-role client's counterpart for an identity token:
  a provider for the configured role ARN, which holds no token yet, and an
  identity-provider client built from the embedded OIDC configuration.
\<close>

definition NewWebRoleClient ::
  "consumed \<Rightarrow> Session \<Rightarrow> string \<Rightarrow> WebRoleClientConfig \<Rightarrow> webRoleClient outcome" where
  "NewWebRoleClient d cfg url clientCfg =
     (let p = \<lparr>WebRoleProvider.RoleArn = WebRoleClientConfig.RoleArn clientCfg,
               webIdentityToken = None,
               WebRoleProvider.Duration = WebRoleClientConfig.Duration clientCfg,
               WebRoleProvider.Cache = WebRoleClientConfig.Cache clientCfg,
               WebRoleProvider.Logger = Logger clientCfg\<rparr>
      in case MustGetWebIdentityClient d (IdentityProviderName clientCfg) url
                (OidcClientConfig.truncate clientCfg) of
           Panic \<Rightarrow> Panic
         | Returns wc \<Rightarrow>
             Returns \<lparr>webClient = wc, webRoleClient.roleProvider = p, webRoleClient.session = cfg\<rparr>)"

text \<open>
  Modelled from the spec: \<^verbatim>\<open>NewAssumeRoleClient\<close> is outside the files at hand.  The
  client keeps the session and the configuration it is built from; its identity
  source is the identity client of the AWS API over that session until the factory
  sets another.
\<close>

definition NewAssumeRoleClient ::
  "consumed \<Rightarrow> Session \<Rightarrow> AssumeRoleClientConfig \<Rightarrow> assumeRoleClient" where
  "NewAssumeRoleClient d cfg clientCfg =
     \<lparr>assumeRoleClient.session = cfg, assumeRoleClient.config = clientCfg,
      assumeRoleClient.ident = client_identity d cfg\<rparr>"

text \<open>
  Modelled from the spec: \<^verbatim>\<open>NewSessionTokenClient\<close> is outside the files at hand.  The
  client keeps the session and the configuration it is built from and has a
  credentials object and an identity source of its own.
\<close>

definition NewSessionTokenClient ::
  "consumed \<Rightarrow> Session \<Rightarrow> SessionTokenClientConfig \<Rightarrow> sessionTokenClient" where
  "NewSessionTokenClient d cfg clientCfg =
     \<lparr>sessionTokenClient.session = cfg, sessionTokenClient.config = clientCfg,
      creds = client_credentials d cfg clientCfg,
      sessionTokenClient.ident = client_identity d cfg\<rparr>"

subsection \<open>Identity and roles of a client\<close>

text \<open>
  \<^verbatim>\<open>samlRoleClient.Identity\<close> and \<^verbatim>\<open>samlRoleClient.Roles\<close> hand the question to the
  client's identity-provider client; the answer is the one that identity source gives.
\<close>

definition samlRoleClient_Identity :: "consumed \<Rightarrow> samlRoleClient \<Rightarrow> error + Identity" where
  "samlRoleClient_Identity d c = Identity d (SamlIdentity (samlClient c))"

definition samlRoleClient_Roles :: "consumed \<Rightarrow> samlRoleClient \<Rightarrow> error + string list" where
  "samlRoleClient_Roles d c = Roles d (SamlIdentity (samlClient c))"

text \<open>
  Modelled from the spec: the methods of the Assume-Role client are outside the files
  at hand.  The client answers \<^verbatim>\<open>Identity()\<close> and \<^verbatim>\<open>Roles()\<close> by delegation to its
  \<open>ident\<close>.
\<close>

definition assumeRoleClient_Identity :: "consumed \<Rightarrow> assumeRoleClient \<Rightarrow> error + Identity" where
  "assumeRoleClient_Identity d c = Identity d (assumeRoleClient.ident c)"

text \<open>
  Modelled from the spec: \<^verbatim>\<open>Roles()\<close> of the Assume-Role client, delegated like
  \<^verbatim>\<open>Identity()\<close>.
\<close>

definition assumeRoleClient_Roles :: "consumed \<Rightarrow> assumeRoleClient \<Rightarrow> error + string list" where
  "assumeRoleClient_Roles d c = Roles d (assumeRoleClient.ident c)"

subsection \<open>The factory's builders\<close>

definition decodePassword :: "consumed \<Rightarrow> string \<Rightarrow> string \<Rightarrow> string" where
  "decodePassword d url password =
     (case Decode d url password of Inl err \<Rightarrow> password | Inr pw \<Rightarrow> pw)"

text \<open>\<^verbatim>\<open>session.Must\<close> panics when the SDK cannot build the session.\<close>

definition session_Must :: "error + Session \<Rightarrow> Session outcome" where
  "session_Must r = (case r of Inl err \<Rightarrow> Panic | Inr ses \<Rightarrow> Returns ses)"

definition sessionClient ::
  "consumed \<Rightarrow> Factory \<Rightarrow> AwsConfig \<Rightarrow> session_Options \<Rightarrow> sessionTokenClient outcome" where
  "sessionClient d f cfg opts =
     (let logger = Options.Logger (options f);
          sesCfg = \<lparr>SessionTokenClientConfig.Logger = logger,
                    SessionTokenClientConfig.Cache = None,
                    SessionTokenClientConfig.Duration = SessionTokenDuration cfg,
                    SerialNumber = MfaSerial cfg,
                    TokenCode = MfaCode cfg,
                    TokenProvider = MfaInputProvider (options f)\<rparr>;
          sesCfg = (if EnableCache (options f)
                    then sesCfg\<lparr>SessionTokenClientConfig.Cache :=
                           Some (NewFileCredentialCache
                                   (cacheFileName d ''.aws_session_token'' (Profile opts) []))\<rparr>
                    else sesCfg)
      in case session_Must (NewSessionWithOptions d opts) of
           Panic \<Rightarrow> Panic
         | Returns ses \<Rightarrow> Returns (NewSessionTokenClient d ses sesCfg))"

definition roleClient ::
  "consumed \<Rightarrow> Factory \<Rightarrow> AwsConfig \<Rightarrow> session_Options \<Rightarrow> assumeRoleClient outcome" where
  "roleClient d f cfg opts =
     (let logger = Options.Logger (options f);
          roleCfg = \<lparr>SessionTokenClientConfig.Logger = logger,
                     SessionTokenClientConfig.Cache = None,
                     SessionTokenClientConfig.Duration = RoleCredentialDuration d cfg,
                     SerialNumber = MfaSerial cfg,
                     TokenCode = MfaCode cfg,
                     TokenProvider = MfaInputProvider (options f),
                     AssumeRoleClientConfig.RoleArn = AwsConfig.RoleArn cfg,
                     AssumeRoleClientConfig.RoleSessionName = AwsConfig.RoleSessionName cfg,
                     AssumeRoleClientConfig.ExternalId = AwsConfig.ExternalId cfg\<rparr>;
          roleCfg = (if EnableCache (options f)
                     then roleCfg\<lparr>SessionTokenClientConfig.Cache :=
                            Some (NewFileCredentialCache
                                    (cacheFileName d ''.aws_assume_role'' (Profile opts)
                                       (AwsConfig.RoleArn cfg)))\<rparr>
                     else roleCfg);
          opts = (if length (SrcProfile cfg) > 0 then opts\<lparr>Profile := SrcProfile cfg\<rparr> else opts)
      in case session_Must (NewSessionWithOptions d opts) of
           Panic \<Rightarrow> Panic
         | Returns ses \<Rightarrow>
             if RoleCredentialDuration d cfg \<le> AssumeRoleDurationDefault d
             then (let roleCfg = roleCfg\<lparr>SerialNumber := []\<rparr>
                   in case sessionClient d f cfg opts of
                        Panic \<Rightarrow> Panic
                      | Returns sc \<Rightarrow>
                          let ses = ses\<lparr>Credentials := creds sc\<rparr>;
                              cl = NewAssumeRoleClient d ses roleCfg
                          in Returns (cl\<lparr>assumeRoleClient.ident := sessionTokenClient.ident sc\<rparr>))
             else Returns (NewAssumeRoleClient d ses roleCfg))"

text \<open>
  \<open>samlClient\<close>.  The identity-provider client is shared by reference in the source;
  here a reference to it is the client as the factory configured it.  The fetch of the
  initial assertion returns Go's pair of an assertion pointer and an error.
\<close>

definition samlClient ::
  "consumed \<Rightarrow> Factory \<Rightarrow> AwsConfig \<Rightarrow> AwsCredentials \<Rightarrow> session_Options \<Rightarrow>
     (error + AwsClient) outcome" where
  "samlClient d f cfg credentials opts =
     (let logger = Options.Logger (options f);
          samlCfg = \<lparr>Username = SamlUsername cfg,
                     Password = decodePassword d (SamlUrl cfg) (SamlPassword credentials),
                     MfaTokenCode = MfaCode cfg,
                     MfaTokenProvider = MfaInputProvider (options f),
                     MfaType = AwsConfig.MfaType cfg,
                     CredentialInputProvider = Options.CredentialInputProvider (options f),
                     IdentityProviderName = SamlProvider cfg,
                     FederatedUsername = AwsConfig.FederatedUsername cfg,
                     Logger = logger,
                     SamlRoleClientConfig.Cache = None,
                     SamlRoleClientConfig.Duration = RoleCredentialDuration d cfg,
                     SamlRoleClientConfig.RoleArn = AwsConfig.RoleArn cfg\<rparr>;
          samlCfg = (if EnableCache (options f)
                     then samlCfg\<lparr>SamlRoleClientConfig.Cache :=
                            Some (NewFileCredentialCache
                                    (cacheFileName d ''.aws_saml_role'' (Profile opts)
                                       (AwsConfig.RoleArn cfg)))\<rparr>
                     else samlCfg);
          opts = opts\<lparr>Profile := []\<rparr>
      in case session_Must (NewSessionWithOptions d opts) of
           Panic \<Rightarrow> Panic
         | Returns ses \<Rightarrow>
             if length (JumpRoleArn cfg) > 0
             then (let samlCfg = samlCfg\<lparr>SamlRoleClientConfig.RoleArn := JumpRoleArn cfg\<rparr>;
                       samlCfg = (if EnableCache (options f)
                                  then samlCfg\<lparr>SamlRoleClientConfig.Cache :=
                                         Some (NewFileCredentialCache
                                                 (cacheFileName d ''.aws_saml_role'' []
                                                    (JumpRoleArn cfg)))\<rparr>
                                  else samlCfg);
                       roleCache = (if EnableCache (options f)
                                    then Some (NewFileCredentialCache
                                                 (cacheFileName d ''.aws_assume_role''
                                                    (ProfileName cfg) (AwsConfig.RoleArn cfg)))
                                    else None)
                   in case NewSamlRoleClient d ses (SamlUrl cfg) samlCfg of
                        Panic \<Rightarrow> Panic
                      | Returns baseCl \<Rightarrow>
                          let baseCl = baseCl\<lparr>samlRoleClient.samlClient := SetCookieJar (samlRoleClient.samlClient baseCl) (cookieJar d)\<rparr>
                          in (case SamlAssertion d (samlRoleClient.samlClient baseCl) of
                                (assertion, Some err) \<Rightarrow> Returns (Inl err)
                              | (assertion, None) \<Rightarrow>
                                  let baseCl = baseCl\<lparr>samlRoleClient.roleProvider :=
                                                 (samlRoleClient.roleProvider baseCl)\<lparr>samlAssertion := assertion\<rparr>\<rparr>;
                                      ses = ses\<lparr>Credentials :=
                                              SamlRoleCredentials (samlRoleClient.roleProvider baseCl)\<rparr>;
                                      roleCfg = \<lparr>SessionTokenClientConfig.Logger = Options.Logger (options f),
                                                 SessionTokenClientConfig.Cache = roleCache,
                                                 SessionTokenClientConfig.Duration = AssumeRoleDurationDefault d,
                                                 SerialNumber = [],
                                                 TokenCode = [],
                                                 TokenProvider = None,
                                                 AssumeRoleClientConfig.RoleArn = AwsConfig.RoleArn cfg,
                                                 AssumeRoleClientConfig.RoleSessionName = AwsConfig.RoleSessionName cfg,
                                                 AssumeRoleClientConfig.ExternalId = AwsConfig.ExternalId cfg\<rparr>;
                                      roleCl = NewAssumeRoleClient d ses roleCfg
                                  in Returns (Inr (AssumeRoleClient
                                        (roleCl\<lparr>assumeRoleClient.ident := SamlIdentity (samlRoleClient.samlClient baseCl)\<rparr>)))))
             else (case NewSamlRoleClient d ses (SamlUrl cfg) samlCfg of
                     Panic \<Rightarrow> Panic
                   | Returns cl \<Rightarrow>
                       let cl = cl\<lparr>samlRoleClient.samlClient := SetCookieJar (samlRoleClient.samlClient cl) (cookieJar d)\<rparr>;
                           assertion = fst (SamlAssertion d (samlRoleClient.samlClient cl));
                           cl = cl\<lparr>samlRoleClient.roleProvider :=
                                   (samlRoleClient.roleProvider cl)\<lparr>samlAssertion := assertion\<rparr>\<rparr>
                       in Returns (Inr (SamlRoleClient cl))))"

definition webClient ::
  "consumed \<Rightarrow> Factory \<Rightarrow> AwsConfig \<Rightarrow> AwsCredentials \<Rightarrow> session_Options \<Rightarrow>
     (error + AwsClient) outcome" where
  "webClient d f cfg credentials opts =
     (let logger = Options.Logger (options f);
          webCfg = \<lparr>Username = WebIdentityUsername cfg,
                    Password = decodePassword d (WebIdentityUrl cfg) (WebIdentityPassword credentials),
                    MfaTokenCode = MfaCode cfg,
                    MfaTokenProvider = MfaInputProvider (options f),
                    MfaType = AwsConfig.MfaType cfg,
                    CredentialInputProvider = Options.CredentialInputProvider (options f),
                    IdentityProviderName = WebIdentityProvider cfg,
                    FederatedUsername = AwsConfig.FederatedUsername cfg,
                    Logger = logger,
                    ClientId = WebIdentityClientId cfg,
                    RedirectUri = WebIdentityRedirectUri cfg,
                    Scopes = [],
                    WebRoleClientConfig.Cache = None,
                    WebRoleClientConfig.Duration = RoleCredentialDuration d cfg,
                    WebRoleClientConfig.RoleArn = AwsConfig.RoleArn cfg,
                    WebRoleClientConfig.WebIdentityTokenFile = AwsConfig.WebIdentityTokenFile cfg\<rparr>;
          cacheFile = cacheFileName d ''.aws_web_role'' (Profile opts) (AwsConfig.RoleArn cfg);
          webCfg = (if EnableCache (options f)
                    then webCfg\<lparr>WebRoleClientConfig.Cache := Some (NewFileCredentialCache cacheFile)\<rparr>
                    else webCfg);
          opts = opts\<lparr>Profile := []\<rparr>
      in case session_Must (NewSessionWithOptions d opts) of
           Panic \<Rightarrow> Panic
         | Returns ses \<Rightarrow>
             if length (JumpRoleArn cfg) > 0
             then (let webCfg = webCfg\<lparr>WebRoleClientConfig.RoleArn := JumpRoleArn cfg\<rparr>;
                       webCfg = (if EnableCache (options f)
                                 then webCfg\<lparr>WebRoleClientConfig.Cache :=
                                        Some (NewFileCredentialCache
                                                (cacheFileName d ''.aws_web_role'' []
                                                   (JumpRoleArn cfg)))\<rparr>
                                 else webCfg);
                       roleCache = (if EnableCache (options f)
                                    then Some (NewFileCredentialCache
                                                 (cacheFileName d ''.aws_assume_role''
                                                    (ProfileName cfg) (AwsConfig.RoleArn cfg)))
                                    else None)
                   in case NewWebRoleClient d ses (WebIdentityUrl cfg) webCfg of
                        Panic \<Rightarrow> Panic
                      | Returns baseCl \<Rightarrow>
                          let baseCl = baseCl\<lparr>webRoleClient.webClient := SetCookieJar (webRoleClient.webClient baseCl) (cookieJar d)\<rparr>
                          in (case FetchToken d baseCl of
                                Inl err \<Rightarrow> Returns (Inl err)
                              | Inr tokBytes \<Rightarrow>
                                  let baseCl = baseCl\<lparr>webRoleClient.roleProvider :=
                                                 (webRoleClient.roleProvider baseCl)
                                                   \<lparr>webIdentityToken := Some tokBytes\<rparr>\<rparr>;
                                      ses = ses\<lparr>Credentials :=
                                              WebRoleCredentials (webRoleClient.roleProvider baseCl)\<rparr>;
                                      roleCfg = \<lparr>SessionTokenClientConfig.Logger = Options.Logger (options f),
                                                 SessionTokenClientConfig.Cache = roleCache,
                                                 SessionTokenClientConfig.Duration = AssumeRoleDurationDefault d,
                                                 SerialNumber = [],
                                                 TokenCode = [],
                                                 TokenProvider = None,
                                                 AssumeRoleClientConfig.RoleArn = AwsConfig.RoleArn cfg,
                                                 AssumeRoleClientConfig.RoleSessionName = AwsConfig.RoleSessionName cfg,
                                                 AssumeRoleClientConfig.ExternalId = AwsConfig.ExternalId cfg\<rparr>;
                                      roleCl = NewAssumeRoleClient d ses roleCfg
                                  in Returns (Inr (AssumeRoleClient
                                        (roleCl\<lparr>assumeRoleClient.ident := WebIdentity (webRoleClient.webClient baseCl)\<rparr>)))))
             else (case NewWebRoleClient d ses (WebIdentityUrl cfg) webCfg of
                     Panic \<Rightarrow> Panic
                   | Returns cl \<Rightarrow>
                       Returns (Inr (WebRoleClient
                         (cl\<lparr>webRoleClient.webClient := SetCookieJar (webRoleClient.webClient cl) (cookieJar d)\<rparr>)))))"

subsection \<open>Get\<close>

text \<open>
  The three preparations of \<open>Get\<close>: a profile name that is an ARN becomes the role
  ARN, the session options are made from the configuration, and the credentials kept
  for an identity provider's URL are looked up, an unknown URL giving empty ones,
  before the command line's are merged in.
\<close>

definition profile_as_role :: "AwsConfig \<Rightarrow> AwsConfig" where
  "profile_as_role cfg =
     (if IsARN (ProfileName cfg)
      then cfg\<lparr>AwsConfig.RoleArn := ProfileName cfg, ProfileName := []\<rparr>
      else cfg)"

definition session_options :: "Factory \<Rightarrow> AwsConfig \<Rightarrow> session_Options" where
  "session_options f cfg =
     (let sesCfg = \<lparr>CredentialsChainVerboseErrors = True,
                    aws_Config.Region = AwsConfig.Region cfg,
                    LogLevel = AwsLogLevel (options f),
                    aws_Config.Logger = Options.Logger (options f)\<rparr>
      in \<lparr>Config = sesCfg, Profile = ProfileName cfg, SharedConfigState = SharedConfigEnable\<rparr>)"

definition resolve_credentials :: "consumed \<Rightarrow> Factory \<Rightarrow> string \<Rightarrow> AwsCredentials" where
  "resolve_credentials d f url =
     (let credentials = (case resolver f url of
                           Inl err \<Rightarrow> \<lparr>SamlPassword = [], WebIdentityPassword = []\<rparr>
                         | Inr c \<Rightarrow> c)
      in MergeIn d credentials (CommandCredentials (options f)))"

text \<open>
  \<open>Get\<close> takes a pointer to the configuration (\<open>None\<close> is nil) and writes to it; the
  configuration after the call is returned beside Go's pair of client and error.
\<close>

definition with_cfg ::
  "AwsConfig \<Rightarrow> (error + AwsClient) outcome \<Rightarrow> ((error + AwsClient) \<times> AwsConfig option) outcome" where
  "with_cfg cfg r = (case r of Panic \<Rightarrow> Panic | Returns x \<Rightarrow> Returns (x, Some cfg))"

definition Get ::
  "consumed \<Rightarrow> Factory \<Rightarrow> AwsConfig option \<Rightarrow> ((error + AwsClient) \<times> AwsConfig option) outcome" where
  "Get d f cfgp =
     (case cfgp of
        None \<Rightarrow> Returns (Inl (ErrorString ''invalid configuration''), None)
      | Some cfg0 \<Rightarrow>
          (case Validate d cfg0 of
             Some err \<Rightarrow> Returns (Inl err, Some cfg0)
           | None \<Rightarrow>
               let cfg = profile_as_role cfg0;
                   opts = session_options f cfg
               in if length (SamlUrl cfg) > 0
                  then with_cfg cfg (samlClient d f cfg (resolve_credentials d f (SamlUrl cfg)) opts)
                  else if length (WebIdentityUrl cfg) > 0
                  then with_cfg cfg (webClient d f cfg (resolve_credentials d f (WebIdentityUrl cfg)) opts)
                  else if length (AwsConfig.RoleArn cfg) > 0
                  then (case roleClient d f cfg opts of
                          Panic \<Rightarrow> Panic
                        | Returns cl \<Rightarrow> Returns (Inr (AssumeRoleClient cl), Some cfg))
                  else (case sessionClient d f cfg opts of
                          Panic \<Rightarrow> Panic
                        | Returns cl \<Rightarrow> Returns (Inr (SessionTokenClient cl), Some cfg))))"

subsection \<open>Vocabulary of the statements\<close>

text \<open>
  The authentication configuration \<open>samlClient\<close> embeds in the SAML-role client
  configuration, which is what the identity-provider client is built from, and the
  session options \<open>roleClient\<close> ends up with once a source profile is taken into
  account.
\<close>

definition saml_auth_config :: "consumed \<Rightarrow> Factory \<Rightarrow> AwsConfig \<Rightarrow> AuthenticationClientConfig" where
  "saml_auth_config d f cfg =
     \<lparr>Username = SamlUsername cfg,
      Password = decodePassword d (SamlUrl cfg)
                   (SamlPassword (resolve_credentials d f (SamlUrl cfg))),
      MfaTokenCode = MfaCode cfg,
      MfaTokenProvider = MfaInputProvider (options f),
      MfaType = AwsConfig.MfaType cfg,
      CredentialInputProvider = Options.CredentialInputProvider (options f),
      IdentityProviderName = SamlProvider cfg,
      FederatedUsername = AwsConfig.FederatedUsername cfg,
      Logger = Options.Logger (options f)\<rparr>"

definition role_session_options :: "Factory \<Rightarrow> AwsConfig \<Rightarrow> session_Options" where
  "role_session_options f cfg =
     (if SrcProfile cfg \<noteq> [] then (session_options f cfg)\<lparr>Profile := SrcProfile cfg\<rparr>
      else session_options f cfg)"

text \<open>
  The decision procedure in the spec's words: the first of the four conditions that
  holds names the variant.  \<open>kind\<close> is the variant a client belongs to.
\<close>

datatype variant = SamlRoleVariant | WebRoleVariant | AssumeRoleVariant | SessionTokenVariant

definition decision :: "AwsConfig \<Rightarrow> variant" where
  "decision cfg =
     (if SamlUrl cfg \<noteq> [] then SamlRoleVariant
      else if WebIdentityUrl cfg \<noteq> [] then WebRoleVariant
      else if AwsConfig.RoleArn cfg \<noteq> [] then AssumeRoleVariant
      else SessionTokenVariant)"

fun kind :: "AwsClient \<Rightarrow> variant" where
  "kind (SamlRoleClient c) = SamlRoleVariant"
| "kind (WebRoleClient c) = WebRoleVariant"
| "kind (AssumeRoleClient c) = AssumeRoleVariant"
| "kind (SessionTokenClient c) = SessionTokenVariant"

text \<open>
  The two parts of the role chain as \<open>samlClient\<close> assembles them: the provider of
  the inner SAML-role client, aimed at the jump role and holding the fetched
  assertion, and the configuration of the outer Assume-Role client.
\<close>

definition jump_provider ::
  "consumed \<Rightarrow> Factory \<Rightarrow> AwsConfig \<Rightarrow> string option \<Rightarrow> SamlRoleProvider" where
  "jump_provider d f cfg assertion =
     \<lparr>SamlRoleProvider.RoleArn = JumpRoleArn cfg,
      samlAssertion = assertion,
      SamlRoleProvider.Duration = RoleCredentialDuration d cfg,
      SamlRoleProvider.Cache =
        (if EnableCache (options f)
         then Some (NewFileCredentialCache (cacheFileName d ''.aws_saml_role'' [] (JumpRoleArn cfg)))
         else None),
      SamlRoleProvider.Logger = Options.Logger (options f)\<rparr>"

definition chained_config :: "consumed \<Rightarrow> Factory \<Rightarrow> AwsConfig \<Rightarrow> AssumeRoleClientConfig" where
  "chained_config d f cfg =
     \<lparr>SessionTokenClientConfig.Logger = Options.Logger (options f),
      SessionTokenClientConfig.Cache =
        (if EnableCache (options f)
         then Some (NewFileCredentialCache
                      (cacheFileName d ''.aws_assume_role'' (ProfileName cfg) (AwsConfig.RoleArn cfg)))
         else None),
      SessionTokenClientConfig.Duration = AssumeRoleDurationDefault d,
      SerialNumber = [],
      TokenCode = [],
      TokenProvider = None,
      AssumeRoleClientConfig.RoleArn = AwsConfig.RoleArn cfg,
      AssumeRoleClientConfig.RoleSessionName = AwsConfig.RoleSessionName cfg,
      AssumeRoleClientConfig.ExternalId = AwsConfig.ExternalId cfg\<rparr>"

section \<open>Sample values\<close>

text \<open>
  A response with two \<open>SAMLResponse\<close> inputs, a login page with none, and an
  environment that serves them: every request is answered with its own URL as body,
  except two authorize endpoints whose round trip ends in a \<^verbatim>\<open>*url.Error\<close>.
\<close>

definition doc_two :: Node where
  "doc_two =
     Element ''html'' []
       [Element ''body'' []
          [Element ''form'' [(''method'', ''post'')]
             [Element ''input'' [(''type'', ''hidden''), (''name'', ''SAMLResponse''), (''value'', ''first'')] [],
              Element ''input'' [(''type'', ''hidden''), (''name'', ''RelayState''), (''value'', ''rs'')] [],
              Element ''input'' [(''type'', ''hidden''), (''name'', ''SAMLResponse''), (''value'', ''second'')] []]]]"

definition doc_login :: Node where
  "doc_login =
     Element ''html'' []
       [Element ''body'' []
          [Text ''Sign in'',
           Element ''form'' []
             [Element ''input'' [(''name'', ''username'')] [],
              Element ''input'' [(''name'', ''password''), (''type'', ''password'')] []]]]"

definition sample_url_Parse :: "string \<Rightarrow> error + URL" where
  "sample_url_Parse s =
     (if s = [] then Inl (ErrorString ''empty url'')
      else Inr \<lparr>Scheme = [], Host = [], Path = takeWhile (\<lambda>x. x \<noteq> CHR ''?'') s,
                 RawQuery = drop 1 (dropWhile (\<lambda>x. x \<noteq> CHR ''?'') s)\<rparr>)"

definition sample_ext :: extern where
  "sample_ext =
     \<lparr>ExpiresAt = (\<lambda>a. if a = ''fresh'' then Inr 100
                        else if a = ''stale'' then Inr 10
                        else Inl (ErrorString ''no expiry'')),
      newHttpRequest = (\<lambda>ctx m u. Inr \<lparr>Method = m, RequestURL = u, Ctx = ctx\<rparr>),
      NewRequestWithContext = (\<lambda>ctx m u. Inr \<lparr>Method = m, RequestURL = u, Ctx = ctx\<rparr>),
      Do = (\<lambda>h req.
              if RequestURL req = ''idp/authorize?q''
              then Inl (UrlError ''Get'' ''app/callback?code=abc'' (ErrorString ''unsupported protocol scheme''))
              else if RequestURL req = ''idp/down?q''
              then Inl (UrlError ''Get'' ''idp/down?q'' (ErrorString ''connection refused''))
              else Inr \<lparr>StatusCode = 200, Status = ''200 OK'', Body = RequestURL req\<rparr>),
      checkResponseError = (\<lambda>r. r),
      NewDocumentFromReader = (\<lambda>b. if b = ''idp/two'' then Inr doc_two else Inr doc_login),
      url_Parse = sample_url_Parse,
      URL_String = (\<lambda>u. Path u @ (if RawQuery u = [] then [] else CHR ''?'' # RawQuery u)),
      URL_Query = (\<lambda>u. if RawQuery u = [] then [] else [(''raw'', [RawQuery u])]),
      Values_Encode = (\<lambda>v. concat (map fst v)),
      Location = (\<lambda>res. Inl (ErrorString ''http: no Location header in response''))\<rparr>"

definition sample_client :: baseClient where
  "sample_client =
     \<lparr>Username = ''alice'', Password = ''secret'', MfaTokenCode = [], MfaTokenProvider = None,
      MfaType = ''auto'',
      CredentialInputProvider = None,
      IdentityProviderName = ''mock'',
      FederatedUsername = [],
      Logger = DefaultLogger,
      ClientId = ''cid'', RedirectUri = ''app/callback'', Scopes = [],
      authUrl = \<lparr>Scheme = [], Host = [], Path = ''idp/login'', RawQuery = []\<rparr>,
      entityId = [], httpClient = Some DefaultClient, saml = None\<rparr>"

definition sample_world :: world where
  "sample_world = \<lparr>now = 50, sent = []\<rparr>"

definition login_request :: Request where
  "login_request = \<lparr>Method = ''GET'', RequestURL = ''idp/login'', Ctx = Background\<rparr>"

definition login_response :: Response where
  "login_response = \<lparr>StatusCode = 200, Status = ''200 OK'', Body = ''idp/login''\<rparr>"

definition authorize_request :: "string \<Rightarrow> Request" where
  "authorize_request u = \<lparr>Method = ''GET'', RequestURL = u, Ctx = Background\<rparr>"

definition sample_input :: "string \<Rightarrow> string \<Rightarrow> error + string \<times> string" where
  "sample_input u p =
     (if u = ''eof'' then Inl (ErrorString ''input closed'') else Inr (''bob'', ''hunter2''))"

text \<open>
  For the factory: a role ARN, an environment in which every session and every
  identity-provider client can be built, where the role credential duration of a
  configuration is read from its session-token duration and the assertion fetch fails
  for the user \<open>mallory\<close> only, a factory with caching on, and configurations for
  a plain role, a SAML role, a SAML role behind a jump role, the same for a user who is
  locked out, and a profile named by an ARN.
\<close>

definition sample_role :: string where
  "sample_role = ''arn:aws:iam::123456789012:role/team/Admin''"

definition sample_consumed :: consumed where
  "sample_consumed =
     \<lparr>SharedConfigFilename = ''/home/u/.aws/config'',
      LookupEnv = (\<lambda>k. None),
      filepath_Dir = (\<lambda>p. rev (drop 1 (dropWhile (\<lambda>x. x \<noteq> CHR ''/'') (rev p)))),
      filepath_Join = (\<lambda>xs. case xs of [a, b] \<Rightarrow> a @ ''/'' @ b | _ \<Rightarrow> concat xs),
      Validate = (\<lambda>cfg. if AwsConfig.Region cfg = [] then Some (ErrorString ''region is required'') else None),
      RoleCredentialDuration = (\<lambda>cfg. SessionTokenDuration cfg),
      AssumeRoleDurationDefault = 3600,
      MergeIn = (\<lambda>c cmd. c),
      Decode = (\<lambda>url p. Inl (ErrorString ''not encoded'')),
      NewSessionWithOptions = (\<lambda>opts. Inr \<lparr>Options = opts, Credentials = SdkCredentials 0\<rparr>),
      MustGetSamlClient = (\<lambda>provider url a.
         Returns \<lparr>Username = Username a, Password = Password a, MfaTokenCode = MfaTokenCode a,
                  MfaTokenProvider = MfaTokenProvider a,
                  MfaType = MfaType a, CredentialInputProvider = CredentialInputProvider a,
                  IdentityProviderName = provider, FederatedUsername = FederatedUsername a,
                  Logger = Logger a,
                  ClientId = [], RedirectUri = [], Scopes = [],
                  authUrl = \<lparr>Scheme = [], Host = [], Path = url, RawQuery = []\<rparr>,
                  entityId = [], httpClient = None, saml = None\<rparr>),
      MustGetWebIdentityClient = (\<lambda>provider url a. Panic),
      SamlAssertion = (\<lambda>c. if Username c = ''mallory''
                              then (None, Some (ErrorString ''authentication failed''))
                              else (Some ''PHNhbWw+'', None)),
      FetchToken = (\<lambda>c. Inl (ErrorString ''no token'')),
      client_credentials = (\<lambda>ses c. SdkCredentials 1),
      client_identity = (\<lambda>ses. AwsIdentity 0),
      Identity = (\<lambda>i. Inl (ErrorString ''offline'')),
      Roles = (\<lambda>i. Inr [])\<rparr>"

definition sample_factory :: Factory where
  "sample_factory =
     \<lparr>resolver = (\<lambda>url. Inl (ErrorString ''no credentials stored'')),
      options = \<lparr>AwsLogLevel = 0, Options.Logger = DefaultLogger, CommandCredentials = None,
                 MfaInputProvider = None, Options.CredentialInputProvider = None,
                 EnableCache = True\<rparr>\<rparr>"

definition role_config :: AwsConfig where
  "role_config =
     \<lparr>ProfileName = ''dev'', AwsConfig.RoleArn = sample_role, AwsConfig.Region = ''us-east-1'',
      SamlUrl = [], SamlUsername = [], SamlProvider = [],
      WebIdentityUrl = [], WebIdentityUsername = [], WebIdentityProvider = [],
      WebIdentityClientId = [], WebIdentityRedirectUri = [], AwsConfig.WebIdentityTokenFile = [],
      JumpRoleArn = [], AwsConfig.FederatedUsername = [], MfaCode = [],
      AwsConfig.MfaType = ''auto'', MfaSerial = ''arn:aws:iam::123456789012:mfa/alice'',
      AwsConfig.RoleSessionName = [], AwsConfig.ExternalId = [], SrcProfile = [],
      SessionTokenDuration = 3600\<rparr>"

definition saml_config :: AwsConfig where
  "saml_config = role_config\<lparr>SamlUrl := ''https://idp.example/saml'', SamlUsername := ''alice'',
                             SamlProvider := ''mock''\<rparr>"

definition jump_config :: AwsConfig where
  "jump_config = saml_config\<lparr>JumpRoleArn := ''arn:aws:iam::210987654321:role/Jump'',
                             SessionTokenDuration := 43200\<rparr>"

definition locked_out :: "AwsConfig \<Rightarrow> AwsConfig" where
  "locked_out cfg = cfg\<lparr>SamlUsername := ''mallory''\<rparr>"

definition arn_profile_config :: AwsConfig where
  "arn_profile_config = role_config\<lparr>ProfileName := sample_role, AwsConfig.RoleArn := []\<rparr>"

section \<open>The base authentication client: properties\<close>

subsection \<open>handleSamlResponse\<close>

lemma each_input_eq:
  "each_input c s = (if named_SAMLResponse s then c\<lparr>saml := Some (value_attr s)\<rparr> else c)"
  by (simp add: each_input_def named_SAMLResponse_def value_attr_def split: option.splits)

lemma foldl_each_input:
  "foldl each_input c xs =
     (if filter named_SAMLResponse xs = [] then c
      else c\<lparr>saml := Some (value_attr (last (filter named_SAMLResponse xs)))\<rparr>)"
  by (induction xs rule: rev_induct) (simp_all add: each_input_eq)

lemma handleSamlResponse_parsed:
  "NewDocumentFromReader ext r = Inr doc \<Longrightarrow>
   handleSamlResponse ext c r =
     (None, if saml_inputs doc = [] then c
            else c\<lparr>saml := Some (value_attr (last (saml_inputs doc)))\<rparr>)"
  by (simp add: handleSamlResponse_def foldl_each_input saml_inputs_def)

lemma saml_inputs_doc_two:
  "map value_attr (saml_inputs doc_two) = [''first'', ''second'']"
  by (simp add: saml_inputs_def doc_two_def Find_def named_SAMLResponse_def value_attr_def)

lemma saml_inputs_doc_two_not_Nil: "saml_inputs doc_two \<noteq> []"
  using saml_inputs_doc_two by auto

lemma last_saml_input_doc_two: "value_attr (last (saml_inputs doc_two)) = ''second''"
  using last_map [OF saml_inputs_doc_two_not_Nil, of value_attr] saml_inputs_doc_two by simp

lemma saml_inputs_doc_login: "saml_inputs doc_login = []"
  by (simp add: saml_inputs_def doc_login_def Find_def named_SAMLResponse_def)

text \<open>
  Claim C1, as the code has it.  When the parsed response holds one or more \<open>input\<close>
  elements named \<open>SAMLResponse\<close>, \<open>handleSamlResponse\<close> returns a nil error and the
  held assertion is the \<open>value\<close> attribute of the last of them in document order:
  the callback runs on every match and each match overwrites the one before.  With
  exactly one such element the held assertion is that element's value.  No other field
  of the client changes.
\<close>

theorem handleSamlResponse_last_match:
  assumes "NewDocumentFromReader ext r = Inr doc" and "saml_inputs doc \<noteq> []"
  shows "handleSamlResponse ext c r = (None, c\<lparr>saml := Some (value_attr (last (saml_inputs doc)))\<rparr>)"
  using assms by (simp add: handleSamlResponse_parsed)

theorem handleSamlResponse_last_match_witness:
  "NewDocumentFromReader sample_ext ''idp/two'' = Inr doc_two \<and> saml_inputs doc_two \<noteq> [] \<and>
   handleSamlResponse sample_ext sample_client ''idp/two'' = (None, sample_client\<lparr>saml := Some ''second''\<rparr>)"
proof -
  have p: "NewDocumentFromReader sample_ext ''idp/two'' = Inr doc_two"
    by (simp add: sample_ext_def)
  note n = saml_inputs_doc_two_not_Nil and l = last_saml_input_doc_two
  show ?thesis
    using handleSamlResponse_last_match [OF p n, of sample_client] p n l by simp
qed

text \<open>
  The claim as written says that the first match is kept.  On a form with two
  \<open>SAMLResponse\<close> inputs carrying \<open>first\<close> and \<open>second\<close> the client ends up holding
  \<open>second\<close>.
\<close>

theorem handleSamlResponse_first_match_counterexample:
  "map value_attr (saml_inputs doc_two) = [''first'', ''second''] \<and>
   saml (snd (handleSamlResponse sample_ext sample_client ''idp/two'')) = Some ''second'' \<and>
   saml (snd (handleSamlResponse sample_ext sample_client ''idp/two'')) \<noteq> Some ''first''"
proof -
  have p: "NewDocumentFromReader sample_ext ''idp/two'' = Inr doc_two"
    by (simp add: sample_ext_def)
  note n = saml_inputs_doc_two_not_Nil and l = last_saml_input_doc_two
  show ?thesis
    using handleSamlResponse_parsed [OF p, of sample_client] n l saml_inputs_doc_two by simp
qed

subsection \<open>samlRequest\<close>

lemma samlRequest_fetch_response:
  assumes "newHttpRequest ext ctx ''GET'' (URL_String ext u) = Inr req"
    and "httpClient c = Some h"
    and "checkResponseError ext (Do ext h req) = Inr res"
    and "NewDocumentFromReader ext (Body res) = Inr doc"
  shows "samlRequest_fetch ext ctx u (c, w) =
           Returns (None,
                    if saml_inputs doc = [] then c
                    else c\<lparr>saml := Some (value_attr (last (saml_inputs doc)))\<rparr>,
                    w\<lparr>sent := sent w @ [req]\<rparr>)"
  using assms by (simp add: samlRequest_fetch_def handleSamlResponse_parsed)

lemma samlRequest_not_valid:
  assumes "saml c = None \<or> saml c = Some [] \<or>
           (\<exists>a t. saml c = Some a \<and> ExpiresAt ext a = Inr t \<and> t \<le> now w)"
  shows "samlRequest ext ctx u (c, w) = samlRequest_fetch ext ctx u (c, w)"
  using assms by (auto simp add: samlRequest_def)

lemma sample_request:
  "newHttpRequest sample_ext Background ''GET'' (URL_String sample_ext (authUrl sample_client)) = Inr login_request"
  by (simp add: sample_ext_def sample_client_def login_request_def)

lemma sample_response:
  "checkResponseError sample_ext (Do sample_ext DefaultClient login_request) = Inr login_response"
  by (simp add: sample_ext_def login_request_def login_response_def)

lemma sample_login_doc:
  "NewDocumentFromReader sample_ext (Body login_response) = Inr doc_login"
  by (simp add: sample_ext_def login_response_def)

text \<open>
  Claim C5, as the code has it.  A response that parses and has no \<open>input\<close> named
  \<open>SAMLResponse\<close> makes \<open>handleSamlResponse\<close> return a nil error with the client as
  it was.  So when the client holds no assertion that is still valid (none, an empty
  one, or one whose expiry is not after the clock) and the request goes through,
  \<open>samlRequest\<close> sends one request, returns a nil error and leaves the held assertion
  untouched: nil or empty if that is what was held, the expired assertion otherwise.
\<close>

theorem no_SAMLResponse_leaves_assertion:
  "(NewDocumentFromReader ext r = Inr doc \<and> saml_inputs doc = [] \<longrightarrow>
      handleSamlResponse ext c r = (None, c)) \<and>
   ((saml c = None \<or> saml c = Some [] \<or>
       (\<exists>a t. saml c = Some a \<and> ExpiresAt ext a = Inr t \<and> t \<le> now w)) \<and>
    newHttpRequest ext ctx ''GET'' (URL_String ext u) = Inr req \<and>
    httpClient c = Some h \<and>
    checkResponseError ext (Do ext h req) = Inr res \<and>
    NewDocumentFromReader ext (Body res) = Inr doc' \<and> saml_inputs doc' = [] \<longrightarrow>
      samlRequest ext ctx u (c, w) = Returns (None, c, w\<lparr>sent := sent w @ [req]\<rparr>))"
proof (intro conjI impI)
  assume "NewDocumentFromReader ext r = Inr doc \<and> saml_inputs doc = []"
  then show "handleSamlResponse ext c r = (None, c)"
    by (simp add: handleSamlResponse_parsed)
next
  assume a: "(saml c = None \<or> saml c = Some [] \<or>
       (\<exists>a t. saml c = Some a \<and> ExpiresAt ext a = Inr t \<and> t \<le> now w)) \<and>
    newHttpRequest ext ctx ''GET'' (URL_String ext u) = Inr req \<and>
    httpClient c = Some h \<and>
    checkResponseError ext (Do ext h req) = Inr res \<and>
    NewDocumentFromReader ext (Body res) = Inr doc' \<and> saml_inputs doc' = []"
  then have "samlRequest ext ctx u (c, w) = samlRequest_fetch ext ctx u (c, w)"
    using samlRequest_not_valid by blast
  also have "\<dots> = Returns (None, c, w\<lparr>sent := sent w @ [req]\<rparr>)"
    using a samlRequest_fetch_response [of ext ctx u req c h res doc' w] by simp
  finally show "samlRequest ext ctx u (c, w) = Returns (None, c, w\<lparr>sent := sent w @ [req]\<rparr>)" .
qed

theorem no_SAMLResponse_leaves_assertion_witness:
  "NewDocumentFromReader sample_ext ''idp/login'' = Inr doc_login \<and> saml_inputs doc_login = [] \<and>
   handleSamlResponse sample_ext sample_client ''idp/login'' = (None, sample_client) \<and>
   saml sample_client = None \<and>
   samlRequest sample_ext Background (authUrl sample_client) (sample_client, sample_world) =
     Returns (None, sample_client, sample_world\<lparr>sent := [login_request]\<rparr>)"
proof -
  have p: "NewDocumentFromReader sample_ext ''idp/login'' = Inr doc_login"
    by (simp add: sample_ext_def)
  have s: "saml sample_client = None" and h: "httpClient sample_client = Some DefaultClient"
    by (simp_all add: sample_client_def)
  have e: "sent sample_world = []"
    by (simp add: sample_world_def)
  show ?thesis
    using no_SAMLResponse_leaves_assertion
            [of sample_ext "''idp/login''" doc_login sample_client sample_world Background
                "authUrl sample_client" login_request DefaultClient login_response doc_login]
          p s h e saml_inputs_doc_login sample_request sample_response sample_login_doc
    by simp
qed

text \<open>
  The claim as written promises an empty assertion for every client without a valid
  one.  A client holding the assertion \<open>stale\<close>, expired at 10 on a clock showing 50,
  receives the login page and still holds \<open>stale\<close> afterwards, with a nil error.
\<close>

theorem expired_assertion_survives_counterexample:
  "ExpiresAt sample_ext ''stale'' = Inr 10 \<and> now sample_world = 50 \<and>
   saml_inputs doc_login = [] \<and>
   samlRequest sample_ext Background (authUrl sample_client)
       (sample_client\<lparr>saml := Some ''stale''\<rparr>, sample_world) =
     Returns (None, sample_client\<lparr>saml := Some ''stale''\<rparr>, sample_world\<lparr>sent := [login_request]\<rparr>)"
proof -
  let ?c = "sample_client\<lparr>saml := Some ''stale''\<rparr>"
  have x: "ExpiresAt sample_ext ''stale'' = Inr 10" and n: "now sample_world = 50"
    and e: "sent sample_world = []"
    by (simp_all add: sample_ext_def sample_world_def)
  have "samlRequest sample_ext Background (authUrl sample_client) (?c, sample_world) =
          samlRequest_fetch sample_ext Background (authUrl sample_client) (?c, sample_world)"
    using x n by (simp add: samlRequest_def)
  moreover have "samlRequest_fetch sample_ext Background (authUrl sample_client) (?c, sample_world) =
          Returns (None, ?c, sample_world\<lparr>sent := [login_request]\<rparr>)"
    using samlRequest_fetch_response
            [of sample_ext Background "authUrl sample_client" login_request ?c DefaultClient
                login_response doc_login sample_world]
          sample_request sample_response sample_login_doc saml_inputs_doc_login e
    by (simp add: sample_client_def)
  ultimately show ?thesis
    using x n saml_inputs_doc_login by simp
qed

text \<open>
  Claim C6.  A client holds a non-empty assertion whose expiry \<open>t\<close> lies after the
  clock.  Then \<open>samlRequest\<close> returns a nil error with the client and the list of sent
  requests as they were, and a second call on the state the first one left, at any
  later clock reading still before \<open>t\<close>, does the same: no request is sent and the
  held assertion stays the same string.
\<close>

theorem samlRequest_valid_assertion_twice:
  assumes "saml c = Some a" and "a \<noteq> []" and "ExpiresAt ext a = Inr t"
    and "now w < t" and "later < t"
  shows "samlRequest ext ctx u (c, w) = Returns (None, c, w) \<and>
         samlRequest ext ctx u (c, w\<lparr>now := later\<rparr>) = Returns (None, c, w\<lparr>now := later\<rparr>)"
  using assms by (simp add: samlRequest_def)

theorem samlRequest_valid_assertion_twice_witness:
  "saml (sample_client\<lparr>saml := Some ''fresh''\<rparr>) = Some ''fresh'' \<and> ''fresh'' \<noteq> [] \<and>
   ExpiresAt sample_ext ''fresh'' = Inr 100 \<and> now sample_world < 100 \<and> (60::int) < 100 \<and>
   samlRequest sample_ext Background (authUrl sample_client)
       (sample_client\<lparr>saml := Some ''fresh''\<rparr>, sample_world) =
     Returns (None, sample_client\<lparr>saml := Some ''fresh''\<rparr>, sample_world) \<and>
   samlRequest sample_ext Background (authUrl sample_client)
       (sample_client\<lparr>saml := Some ''fresh''\<rparr>, sample_world\<lparr>now := 60\<rparr>) =
     Returns (None, sample_client\<lparr>saml := Some ''fresh''\<rparr>, sample_world\<lparr>now := 60\<rparr>) \<and>
   sent sample_world = []"
proof -
  have x: "ExpiresAt sample_ext ''fresh'' = Inr 100" and n: "now sample_world < 100"
    and e: "sent sample_world = []"
    by (simp_all add: sample_ext_def sample_world_def)
  show ?thesis
    using samlRequest_valid_assertion_twice
            [of "sample_client\<lparr>saml := Some ''fresh''\<rparr>" "''fresh''" sample_ext 100 sample_world 60
                Background "authUrl sample_client"]
          x n e
    by simp
qed

subsection \<open>gatherCredentials\<close>

lemma gather_mfa_skip:
  "MfaType c \<noteq> MfaTypeCode \<or> MfaTokenCode c \<noteq> [] \<Longrightarrow> gather_mfa c calls = (None, c, calls)"
  by (auto simp add: gather_mfa_def)

lemma gather_mfa_shape:
  "\<exists>e c' more. gather_mfa c calls = (e, c', calls @ more) \<and> set more \<subseteq> {MfaToken} \<and>
     Username c' = Username c \<and> Password c' = Password c"
  by (auto simp add: gather_mfa_def Let_def split: option.splits sum.splits)

text \<open>
  Claim C9.  (1) With a user name and a password set, and an MFA type other than
  \<open>code\<close> or an MFA code already set, \<open>gatherCredentials\<close> calls no provider, returns
  the client unchanged and a nil error.  (2) With the user name or the password
  missing and a credential-input provider configured, the provider is called once, on
  the current pair, and both values it returns are stored; the only other call that
  may follow is the one to the MFA provider.  (3) If that provider fails, its error is
  returned as it is and the client is unchanged.
\<close>

theorem gatherCredentials_idempotent:
  "(Username c \<noteq> [] \<and> Password c \<noteq> [] \<and> (MfaType c \<noteq> MfaTypeCode \<or> MfaTokenCode c \<noteq> []) \<longrightarrow>
      gatherCredentials c = Returns (None, c, [])) \<and>
   ((Username c = [] \<or> Password c = []) \<and> CredentialInputProvider c = Some provider \<and>
    provider (Username c) (Password c) = Inr (u', p') \<longrightarrow>
      (\<exists>e c' more. gatherCredentials c =
                      Returns (e, c', CredentialInput (Username c) (Password c) # more) \<and>
                    set more \<subseteq> {MfaToken} \<and> Username c' = u' \<and> Password c' = p')) \<and>
   ((Username c = [] \<or> Password c = []) \<and> CredentialInputProvider c = Some provider \<and>
    provider (Username c) (Password c) = Inl err \<longrightarrow>
      gatherCredentials c = Returns (Some err, c, [CredentialInput (Username c) (Password c)]))"
proof (intro conjI impI)
  assume "Username c \<noteq> [] \<and> Password c \<noteq> [] \<and> (MfaType c \<noteq> MfaTypeCode \<or> MfaTokenCode c \<noteq> [])"
  then show "gatherCredentials c = Returns (None, c, [])"
    by (simp add: gatherCredentials_def gather_mfa_skip)
next
  assume a: "(Username c = [] \<or> Password c = []) \<and> CredentialInputProvider c = Some provider \<and>
    provider (Username c) (Password c) = Inr (u', p')"
  let ?c = "c\<lparr>Username := u', Password := p'\<rparr>"
  let ?call = "CredentialInput (Username c) (Password c)"
  from a have g: "gatherCredentials c = Returns (gather_mfa ?c [?call])"
    by (auto simp add: gatherCredentials_def)
  obtain e c' more where m: "gather_mfa ?c [?call] = (e, c', [?call] @ more)"
    and s: "set more \<subseteq> {MfaToken}" and u: "Username c' = Username ?c" "Password c' = Password ?c"
    using gather_mfa_shape [of ?c "[?call]"] by blast
  from g m s u show "\<exists>e c' more. gatherCredentials c = Returns (e, c', ?call # more) \<and>
      set more \<subseteq> {MfaToken} \<and> Username c' = u' \<and> Password c' = p'"
    by auto
next
  assume "(Username c = [] \<or> Password c = []) \<and> CredentialInputProvider c = Some provider \<and>
    provider (Username c) (Password c) = Inl err"
  then show "gatherCredentials c = Returns (Some err, c, [CredentialInput (Username c) (Password c)])"
    by (auto simp add: gatherCredentials_def)
qed

theorem gatherCredentials_idempotent_witness:
  "gatherCredentials sample_client = Returns (None, sample_client, []) \<and>
   (\<exists>e c' more.
      gatherCredentials (sample_client\<lparr>Password := [], CredentialInputProvider := Some sample_input\<rparr>) =
        Returns (e, c', CredentialInput ''alice'' [] # more) \<and>
      set more \<subseteq> {MfaToken} \<and> Username c' = ''bob'' \<and> Password c' = ''hunter2'') \<and>
   gatherCredentials (sample_client\<lparr>Password := [], CredentialInputProvider := Some sample_input\<rparr>) =
     Returns (None,
              sample_client\<lparr>Username := ''bob'', Password := ''hunter2'',
                            CredentialInputProvider := Some sample_input\<rparr>,
              [CredentialInput ''alice'' []]) \<and>
   gatherCredentials (sample_client\<lparr>Username := ''eof'', Password := [],
                                    CredentialInputProvider := Some sample_input\<rparr>) =
     Returns (Some (ErrorString ''input closed''),
              sample_client\<lparr>Username := ''eof'', Password := [],
                            CredentialInputProvider := Some sample_input\<rparr>,
              [CredentialInput ''eof'' []])"
proof -
  let ?c2 = "sample_client\<lparr>Password := [], CredentialInputProvider := Some sample_input\<rparr>"
  let ?c3 = "sample_client\<lparr>Username := ''eof'', Password := [],
                            CredentialInputProvider := Some sample_input\<rparr>"
  have 1: "gatherCredentials sample_client = Returns (None, sample_client, [])"
    using gatherCredentials_idempotent [where c = sample_client]
    by (simp add: sample_client_def MfaTypeCode_def)
  have 2: "\<exists>e c' more. gatherCredentials ?c2 = Returns (e, c', CredentialInput ''alice'' [] # more) \<and>
             set more \<subseteq> {MfaToken} \<and> Username c' = ''bob'' \<and> Password c' = ''hunter2''"
    using gatherCredentials_idempotent
            [where c = ?c2 and provider = sample_input and u' = "''bob''" and p' = "''hunter2''"]
    by (simp add: sample_client_def sample_input_def)
  have second: "gatherCredentials ?c2 =
     Returns (None,
              sample_client\<lparr>Username := ''bob'', Password := ''hunter2'',
                            CredentialInputProvider := Some sample_input\<rparr>,
              [CredentialInput ''alice'' []])"
    by (simp add: gatherCredentials_def gather_mfa_def sample_client_def sample_input_def MfaTypeCode_def)
  have 3: "gatherCredentials ?c3 = Returns (Some (ErrorString ''input closed''), ?c3, [CredentialInput ''eof'' []])"
    using gatherCredentials_idempotent
            [where c = ?c3 and provider = sample_input and err = "ErrorString ''input closed''"]
    by (simp add: sample_client_def sample_input_def)
  from 1 2 second 3 show ?thesis by simp
qed

subsection \<open>oauthAuthorize\<close>

text \<open>
  Claim C3.  The call is made with \<open>followRedirect\<close> true and reaches the round trip,
  which fails with a \<^verbatim>\<open>*url.Error\<close> for the URL \<open>target\<close>.  If the configured redirect
  URI is a prefix of \<open>target\<close> (and \<open>target\<close> parses as a URL, as every URL the HTTP
  client reports does), the result is the query of \<open>target\<close> with a nil error; if it
  is not a prefix, the result is the nil map and the transport's error.
\<close>

theorem oauthAuthorize_redirect_error:
  assumes "httpClient c = Some h"
    and "url_Parse ext ep = Inr u"
    and "NewRequestWithContext ext Background ''GET''
           (URL_String ext (u\<lparr>RawQuery := Values_Encode ext data\<rparr>)) = Inr req"
    and "Do ext (authorize_client h True) req = Inl (UrlError op target cause)"
  shows "(prefix (RedirectUri c) target \<and> url_Parse ext target = Inr redirUri \<longrightarrow>
            oauthAuthorize ext (c, w) ep data True =
              Returns ((Some (URL_Query ext redirUri), None), w\<lparr>sent := sent w @ [req]\<rparr>)) \<and>
         (\<not> prefix (RedirectUri c) target \<longrightarrow>
            oauthAuthorize ext (c, w) ep data True =
              Returns ((None, Some (UrlError op target cause)), w\<lparr>sent := sent w @ [req]\<rparr>))"
  using assms by (simp add: oauthAuthorize_def)

theorem oauthAuthorize_redirect_error_witness:
  "prefix (RedirectUri sample_client) ''app/callback?code=abc'' \<and>
   oauthAuthorize sample_ext (sample_client, sample_world) ''idp/authorize'' [(''q'', [])] True =
     Returns ((Some [(''raw'', [''code=abc''])], None),
              sample_world\<lparr>sent := [authorize_request ''idp/authorize?q'']\<rparr>) \<and>
   \<not> prefix (RedirectUri sample_client) ''idp/down?q'' \<and>
   oauthAuthorize sample_ext (sample_client, sample_world) ''idp/down'' [(''q'', [])] True =
     Returns ((None, Some (UrlError ''Get'' ''idp/down?q'' (ErrorString ''connection refused''))),
              sample_world\<lparr>sent := [authorize_request ''idp/down?q'']\<rparr>)"
proof -
  have h: "httpClient sample_client = Some DefaultClient"
    and r: "RedirectUri sample_client = ''app/callback''"
    and e: "sent sample_world = []"
    by (simp_all add: sample_client_def sample_world_def)
  have a: "authorize_client DefaultClient True = DefaultClient"
    by (simp add: authorize_client_def DefaultClient_def)
  have p1: "url_Parse sample_ext ''idp/authorize'' =
              Inr \<lparr>Scheme = [], Host = [], Path = ''idp/authorize'', RawQuery = []\<rparr>"
    and p2: "url_Parse sample_ext ''idp/down'' =
              Inr \<lparr>Scheme = [], Host = [], Path = ''idp/down'', RawQuery = []\<rparr>"
    and p3: "url_Parse sample_ext ''app/callback?code=abc'' =
              Inr \<lparr>Scheme = [], Host = [], Path = ''app/callback'', RawQuery = ''code=abc''\<rparr>"
    by (simp_all add: sample_ext_def sample_url_Parse_def)
  have q1: "NewRequestWithContext sample_ext Background ''GET''
              (URL_String sample_ext
                 (\<lparr>Scheme = [], Host = [], Path = ''idp/authorize'', RawQuery = []\<rparr>
                    \<lparr>RawQuery := Values_Encode sample_ext [(''q'', [])]\<rparr>)) =
            Inr (authorize_request ''idp/authorize?q'')"
    and q2: "NewRequestWithContext sample_ext Background ''GET''
              (URL_String sample_ext
                 (\<lparr>Scheme = [], Host = [], Path = ''idp/down'', RawQuery = []\<rparr>
                    \<lparr>RawQuery := Values_Encode sample_ext [(''q'', [])]\<rparr>)) =
            Inr (authorize_request ''idp/down?q'')"
    by (simp_all add: sample_ext_def authorize_request_def)
  have d1: "Do sample_ext (authorize_client DefaultClient True) (authorize_request ''idp/authorize?q'') =
              Inl (UrlError ''Get'' ''app/callback?code=abc'' (ErrorString ''unsupported protocol scheme''))"
    and d2: "Do sample_ext (authorize_client DefaultClient True) (authorize_request ''idp/down?q'') =
              Inl (UrlError ''Get'' ''idp/down?q'' (ErrorString ''connection refused''))"
    by (simp_all add: sample_ext_def authorize_request_def)
  have x1: "prefix ''app/callback'' ''app/callback?code=abc''"
    and x2: "\<not> prefix ''app/callback'' ''idp/down?q''"
    by simp_all
  have v: "URL_Query sample_ext \<lparr>Scheme = [], Host = [], Path = ''app/callback'', RawQuery = ''code=abc''\<rparr> =
             [(''raw'', [''code=abc''])]"
    by (simp add: sample_ext_def)
  show ?thesis
    using oauthAuthorize_redirect_error
            [OF h p1 q1 d1, where w = sample_world
               and redirUri = "\<lparr>Scheme = [], Host = [], Path = ''app/callback'', RawQuery = ''code=abc''\<rparr>"]
          oauthAuthorize_redirect_error [OF h p2 q2 d2, where w = sample_world]
          r e p3 x1 x2 v
    by simp
qed

section \<open>The factory: properties\<close>

subsection \<open>Cache file names\<close>

lemma Split_not_Nil: "Split s sep \<noteq> []"
  by (induction s) (auto split: list.splits)

lemma SplitN_not_Nil: "0 < n \<Longrightarrow> SplitN s sep n \<noteq> []"
  by (induction s sep n rule: SplitN.induct) (auto split: list.splits)

lemma length_SplitN:
  "0 < n \<Longrightarrow> length (SplitN s sep n) = min n (Suc (count_list s sep))"
proof (induction s sep n rule: SplitN.induct)
  case (4 x xs sep n)
  show ?case
  proof (cases "x = sep")
    case True
    with 4 show ?thesis by simp
  next
    case False
    obtain p ps where "SplitN xs sep (Suc (Suc n)) = p # ps"
      using SplitN_not_Nil [of "Suc (Suc n)" xs sep] by (cases "SplitN xs sep (Suc (Suc n))") auto
    with False 4 show ?thesis by simp
  qed
qed simp_all

lemma IsARN_Parse: "IsARN a \<Longrightarrow> \<exists>r. arn_Parse a = Inr r"
  by (simp add: IsARN_def arn_Parse_def Let_def length_SplitN arnSections_def)

lemma IsARN_not_Nil: "IsARN a \<Longrightarrow> a \<noteq> []"
  by (auto simp add: IsARN_def arnPrefix_def)

lemma sample_arn_Parse:
  "arn_Parse sample_role =
     Inr \<lparr>Partition = ''aws'', Service = ''iam'', ARN.Region = [], AccountID = ''123456789012'',
          Resource = ''role/team/Admin''\<rparr>"
  by (simp add: sample_role_def arn_Parse_def arnPrefix_def arnSections_def eval_nat_numeral)

lemma sample_IsARN: "IsARN sample_role"
  by (simp add: sample_role_def IsARN_def arnPrefix_def arnSections_def)

lemma sample_cachePath: "cachePath sample_consumed = ''/home/u/.aws''"
  by (simp add: cachePath_def sample_consumed_def)

text \<open>
  Claim C8.  The file name is the cache directory joined with \<open>prefix_key\<close>.  With an
  empty profile and a role that \<open>IsARN\<close> accepts, the role parses and the key is the
  ARN's account id, a hyphen and the last of the pieces the resource splits into at
  its slashes.  With a non-empty profile the key is the profile itself, whatever the
  role is.
\<close>

theorem cacheFileName_key:
  "(profile = [] \<and> IsARN role \<longrightarrow>
      (\<exists>a. arn_Parse role = Inr a \<and>
           cacheFileName d pre profile role =
             filepath_Join d [cachePath d,
                              pre @ ''_'' @ AccountID a @ ''-'' @ last (Split (Resource a) CHR ''/'')])) \<and>
   (profile \<noteq> [] \<longrightarrow>
      cacheFileName d pre profile role = filepath_Join d [cachePath d, pre @ ''_'' @ profile])"
proof (intro conjI impI)
  assume a: "profile = [] \<and> IsARN role"
  then obtain r where "arn_Parse role = Inr r"
    using IsARN_Parse by blast
  with a show "\<exists>a. arn_Parse role = Inr a \<and>
           cacheFileName d pre profile role =
             filepath_Join d [cachePath d,
                              pre @ ''_'' @ AccountID a @ ''-'' @ last (Split (Resource a) CHR ''/'')]"
    by (simp add: cacheFileName_def)
next
  assume "profile \<noteq> []"
  then show "cacheFileName d pre profile role = filepath_Join d [cachePath d, pre @ ''_'' @ profile]"
    by (cases profile) (simp_all add: cacheFileName_def)
qed

theorem cacheFileName_key_witness:
  "IsARN sample_role \<and>
   cacheFileName sample_consumed ''.aws_saml_role'' [] sample_role =
     ''/home/u/.aws/.aws_saml_role_123456789012-Admin'' \<and>
   cacheFileName sample_consumed ''.aws_saml_role'' ''dev'' sample_role =
     ''/home/u/.aws/.aws_saml_role_dev''"
proof -
  have j: "\<And>a b. filepath_Join sample_consumed [a, b] = a @ ''/'' @ b"
    by (simp add: sample_consumed_def)
  have "cacheFileName sample_consumed ''.aws_saml_role'' [] sample_role =
          ''/home/u/.aws/.aws_saml_role_123456789012-Admin''"
    using cacheFileName_key [where profile = "[]" and role = sample_role and d = sample_consumed
                               and pre = "''.aws_saml_role''"]
          sample_IsARN sample_arn_Parse sample_cachePath j
    by auto
  moreover have "cacheFileName sample_consumed ''.aws_saml_role'' ''dev'' sample_role =
          ''/home/u/.aws/.aws_saml_role_dev''"
    using cacheFileName_key [where profile = "''dev''" and role = sample_role and d = sample_consumed
                               and pre = "''.aws_saml_role''"]
          sample_cachePath j
    by simp
  ultimately show ?thesis
    using sample_IsARN by simp
qed

subsection \<open>Get and its builders\<close>

lemma profile_as_role_urls:
  "SamlUrl (profile_as_role cfg) = SamlUrl cfg"
  "WebIdentityUrl (profile_as_role cfg) = WebIdentityUrl cfg"
  "JumpRoleArn (profile_as_role cfg) = JumpRoleArn cfg"
  by (simp_all add: profile_as_role_def)

lemma profile_as_role_RoleArn:
  "AwsConfig.RoleArn cfg \<noteq> [] \<Longrightarrow> AwsConfig.RoleArn (profile_as_role cfg) \<noteq> []"
  by (simp add: profile_as_role_def IsARN_not_Nil)

lemma Get_valid:
  "Validate d cfg0 = None \<Longrightarrow>
   Get d f (Some cfg0) =
     (let cfg = profile_as_role cfg0; opts = session_options f cfg
      in case decision cfg of
           SamlRoleVariant \<Rightarrow>
             with_cfg cfg (samlClient d f cfg (resolve_credentials d f (SamlUrl cfg)) opts)
         | WebRoleVariant \<Rightarrow>
             with_cfg cfg (webClient d f cfg (resolve_credentials d f (WebIdentityUrl cfg)) opts)
         | AssumeRoleVariant \<Rightarrow>
             (case roleClient d f cfg opts of
                Panic \<Rightarrow> Panic
              | Returns cl \<Rightarrow> Returns (Inr (AssumeRoleClient cl), Some cfg))
         | SessionTokenVariant \<Rightarrow>
             (case sessionClient d f cfg opts of
                Panic \<Rightarrow> Panic
              | Returns cl \<Rightarrow> Returns (Inr (SessionTokenClient cl), Some cfg)))"
  by (simp add: Get_def decision_def Let_def)

lemma samlClient_no_jump_kind:
  "JumpRoleArn cfg = [] \<Longrightarrow> samlClient d f cfg credentials opts = Returns (Inr cl) \<Longrightarrow>
   kind cl = SamlRoleVariant"
  by (auto simp add: samlClient_def Let_def split: outcome.splits)

lemma webClient_no_jump_kind:
  "JumpRoleArn cfg = [] \<Longrightarrow> webClient d f cfg credentials opts = Returns (Inr cl) \<Longrightarrow>
   kind cl = WebRoleVariant"
  by (auto simp add: webClient_def Let_def split: outcome.splits)

lemma samlClient_jump_value:
  assumes "JumpRoleArn cfg \<noteq> []"
    and "NewSessionWithOptions d (opts\<lparr>Profile := []\<rparr>) = Inr ses"
    and "MustGetSamlClient d (SamlProvider cfg) (SamlUrl cfg) (saml_auth_config d f cfg) = Returns sc"
    and "SamlAssertion d (SetCookieJar sc (cookieJar d)) = (assertion, None)"
  shows "samlClient d f cfg (resolve_credentials d f (SamlUrl cfg)) opts =
           Returns (Inr (AssumeRoleClient
             \<lparr>assumeRoleClient.session =
                ses\<lparr>Credentials := SamlRoleCredentials (jump_provider d f cfg assertion)\<rparr>,
              assumeRoleClient.config = chained_config d f cfg,
              assumeRoleClient.ident = SamlIdentity (SetCookieJar sc (cookieJar d))\<rparr>))"
  using assms
  by (simp add: samlClient_def Let_def session_Must_def NewSamlRoleClient_def
        AuthenticationClientConfig.truncate_def saml_auth_config_def NewAssumeRoleClient_def
        jump_provider_def chained_config_def)

lemma samlClient_jump_failed:
  assumes "JumpRoleArn cfg \<noteq> []"
    and "NewSessionWithOptions d (opts\<lparr>Profile := []\<rparr>) = Inr ses"
    and "MustGetSamlClient d (SamlProvider cfg) (SamlUrl cfg) (saml_auth_config d f cfg) = Returns sc"
    and "SamlAssertion d (SetCookieJar sc (cookieJar d)) = (assertion, Some err)"
  shows "samlClient d f cfg (resolve_credentials d f (SamlUrl cfg)) opts = Returns (Inl err)"
  using assms
  by (simp add: samlClient_def Let_def session_Must_def NewSamlRoleClient_def
        AuthenticationClientConfig.truncate_def saml_auth_config_def)

lemma samlClient_plain:
  assumes "JumpRoleArn cfg = []"
    and "NewSessionWithOptions d (opts\<lparr>Profile := []\<rparr>) = Inr ses"
    and "MustGetSamlClient d (SamlProvider cfg) (SamlUrl cfg) (saml_auth_config d f cfg) = Returns sc"
  shows "\<exists>cl. samlClient d f cfg (resolve_credentials d f (SamlUrl cfg)) opts =
                Returns (Inr (SamlRoleClient cl)) \<and>
              samlRoleClient.samlClient cl = SetCookieJar sc (cookieJar d) \<and>
              samlAssertion (samlRoleClient.roleProvider cl) =
                fst (SamlAssertion d (SetCookieJar sc (cookieJar d)))"
  using assms
  by (simp add: samlClient_def Let_def session_Must_def NewSamlRoleClient_def
        AuthenticationClientConfig.truncate_def saml_auth_config_def)

lemma sessionClient_ok:
  "NewSessionWithOptions d opts = Inr ses \<Longrightarrow>
   \<exists>sesCfg. sessionClient d f cfg opts = Returns (NewSessionTokenClient d ses sesCfg) \<and>
            SerialNumber sesCfg = MfaSerial cfg"
  by (auto simp add: sessionClient_def Let_def session_Must_def)

lemma roleClient_short:
  assumes "RoleCredentialDuration d cfg \<le> AssumeRoleDurationDefault d"
    and "NewSessionWithOptions d (role_session_options f cfg) = Inr ses"
    and "sessionClient d f cfg (role_session_options f cfg) = Returns sc"
  shows "\<exists>cl. roleClient d f cfg (session_options f cfg) = Returns cl \<and>
              SerialNumber (assumeRoleClient.config cl) = [] \<and>
              AssumeRoleClientConfig.RoleArn (assumeRoleClient.config cl) = AwsConfig.RoleArn cfg \<and>
              Credentials (assumeRoleClient.session cl) = creds sc \<and>
              assumeRoleClient.ident cl = sessionTokenClient.ident sc"
  using assms
  by (auto simp add: roleClient_def Let_def session_Must_def role_session_options_def
        NewAssumeRoleClient_def)

lemma Get_jump_fetch_failed:
  assumes "Validate d cfg0 = None"
    and "cfg = profile_as_role cfg0"
    and "SamlUrl cfg \<noteq> []" and "JumpRoleArn cfg \<noteq> []"
    and "NewSessionWithOptions d ((session_options f cfg)\<lparr>Profile := []\<rparr>) = Inr ses"
    and "MustGetSamlClient d (SamlProvider cfg) (SamlUrl cfg) (saml_auth_config d f cfg) = Returns sc"
    and "SamlAssertion d (SetCookieJar sc (cookieJar d)) = (assertion, Some err)"
  shows "Get d f (Some cfg0) = Returns (Inl err, Some cfg)"
proof -
  have "samlClient d f cfg (resolve_credentials d f (SamlUrl cfg)) (session_options f cfg) =
          Returns (Inl err)"
    using assms(4-7) by (rule samlClient_jump_failed)
  then show ?thesis
    using assms(1-3) by (simp add: Get_valid decision_def with_cfg_def Let_def)
qed

text \<open>Facts about the sample values.\<close>

lemma sample_not_ARN: "\<not> IsARN ''dev''"
  by (simp add: IsARN_def arnPrefix_def)

lemma sample_profile_as_role:
  "profile_as_role role_config = role_config"
  "profile_as_role saml_config = saml_config"
  "profile_as_role jump_config = jump_config"
  "profile_as_role (locked_out saml_config) = locked_out saml_config"
  "profile_as_role (locked_out jump_config) = locked_out jump_config"
  using sample_not_ARN
  by (simp_all add: profile_as_role_def role_config_def saml_config_def jump_config_def locked_out_def)

lemma sample_Validate:
  "Validate sample_consumed role_config = None"
  "Validate sample_consumed saml_config = None"
  "Validate sample_consumed jump_config = None"
  "Validate sample_consumed (locked_out saml_config) = None"
  "Validate sample_consumed (locked_out jump_config) = None"
  "Validate sample_consumed arn_profile_config = None"
  by (simp_all add: sample_consumed_def role_config_def saml_config_def jump_config_def
        locked_out_def arn_profile_config_def)

lemma sample_session:
  "NewSessionWithOptions sample_consumed opts = Inr \<lparr>Options = opts, Credentials = SdkCredentials 0\<rparr>"
  by (simp add: sample_consumed_def)

lemma sample_saml_client:
  "\<exists>sc. MustGetSamlClient sample_consumed p u a = Returns sc \<and> Username sc = Username a"
  by (simp add: sample_consumed_def)

lemma sample_fetch:
  "SamlAssertion sample_consumed c =
     (if Username c = ''mallory'' then (None, Some (ErrorString ''authentication failed''))
      else (Some ''PHNhbWw+'', None))"
  by (simp add: sample_consumed_def)

lemma Username_SetCookieJar: "Username (SetCookieJar c jar) = Username c"
  by (simp add: SetCookieJar_def Let_def)

lemma Username_saml_auth_config: "Username (saml_auth_config d f cfg) = SamlUsername cfg"
  by (simp add: saml_auth_config_def)

lemma sample_fields:
  "SamlUrl jump_config = ''https://idp.example/saml''"
  "JumpRoleArn jump_config = ''arn:aws:iam::210987654321:role/Jump''"
  "SamlUsername jump_config = ''alice''"
  "SamlUrl saml_config = ''https://idp.example/saml''"
  "JumpRoleArn saml_config = []"
  "SamlUsername saml_config = ''alice''"
  "SamlUsername (locked_out cfg) = ''mallory''"
  "SamlUrl (locked_out cfg) = SamlUrl cfg"
  "JumpRoleArn (locked_out cfg) = JumpRoleArn cfg"
  "RoleCredentialDuration sample_consumed jump_config = 43200"
  "AssumeRoleDurationDefault sample_consumed = 3600"
  by (simp_all add: jump_config_def saml_config_def role_config_def locked_out_def sample_consumed_def)

text \<open>
  Claim C4.  For a configuration that passes validation, \<open>Get\<close> first turns a profile
  name that is an ARN into the role ARN and clears the profile name, leaving any
  other configuration as it is.  On the result it makes one pass over the four
  conditions and hands over to the builder of the first that holds:
  \<open>samlClient\<close> for a SAML URL, else \<open>webClient\<close> for a Web Identity URL, else
  \<open>roleClient\<close> for a role ARN, else \<open>sessionClient\<close>; and whenever no jump role is
  configured, a client that \<open>Get\<close> returns is of the variant so decided.
\<close>

theorem Get_first_match:
  assumes "Validate d cfg0 = None"
    and "cfg = profile_as_role cfg0"
    and "opts = session_options f cfg"
  shows "cfg = (if IsARN (ProfileName cfg0)
                then cfg0\<lparr>AwsConfig.RoleArn := ProfileName cfg0, ProfileName := []\<rparr>
                else cfg0) \<and>
         Get d f (Some cfg0) =
           (case decision cfg of
              SamlRoleVariant \<Rightarrow>
                with_cfg cfg (samlClient d f cfg (resolve_credentials d f (SamlUrl cfg)) opts)
            | WebRoleVariant \<Rightarrow>
                with_cfg cfg (webClient d f cfg (resolve_credentials d f (WebIdentityUrl cfg)) opts)
            | AssumeRoleVariant \<Rightarrow>
                (case roleClient d f cfg opts of
                   Panic \<Rightarrow> Panic
                 | Returns cl \<Rightarrow> Returns (Inr (AssumeRoleClient cl), Some cfg))
            | SessionTokenVariant \<Rightarrow>
                (case sessionClient d f cfg opts of
                   Panic \<Rightarrow> Panic
                 | Returns cl \<Rightarrow> Returns (Inr (SessionTokenClient cl), Some cfg))) \<and>
         (\<forall>cl cp. JumpRoleArn cfg = [] \<and> Get d f (Some cfg0) = Returns (Inr cl, cp) \<longrightarrow>
                  kind cl = decision cfg)"
proof (intro conjI allI impI)
  show "cfg = (if IsARN (ProfileName cfg0)
                then cfg0\<lparr>AwsConfig.RoleArn := ProfileName cfg0, ProfileName := []\<rparr>
                else cfg0)"
    using assms(2) by (simp add: profile_as_role_def)
next
  show g: "Get d f (Some cfg0) =
           (case decision cfg of
              SamlRoleVariant \<Rightarrow>
                with_cfg cfg (samlClient d f cfg (resolve_credentials d f (SamlUrl cfg)) opts)
            | WebRoleVariant \<Rightarrow>
                with_cfg cfg (webClient d f cfg (resolve_credentials d f (WebIdentityUrl cfg)) opts)
            | AssumeRoleVariant \<Rightarrow>
                (case roleClient d f cfg opts of
                   Panic \<Rightarrow> Panic
                 | Returns cl \<Rightarrow> Returns (Inr (AssumeRoleClient cl), Some cfg))
            | SessionTokenVariant \<Rightarrow>
                (case sessionClient d f cfg opts of
                   Panic \<Rightarrow> Panic
                 | Returns cl \<Rightarrow> Returns (Inr (SessionTokenClient cl), Some cfg)))"
    unfolding assms(2,3) by (simp only: Get_valid [OF assms(1)] Let_def)
  fix cl cp
  assume a: "JumpRoleArn cfg = [] \<and> Get d f (Some cfg0) = Returns (Inr cl, cp)"
  show "kind cl = decision cfg"
  proof (cases "decision cfg")
    case SamlRoleVariant
    with a g show ?thesis
      by (auto simp add: with_cfg_def split: outcome.splits dest: samlClient_no_jump_kind)
  next
    case WebRoleVariant
    with a g show ?thesis
      by (auto simp add: with_cfg_def split: outcome.splits dest: webClient_no_jump_kind)
  next
    case AssumeRoleVariant
    with a g show ?thesis
      by (auto split: outcome.splits)
  next
    case SessionTokenVariant
    with a g show ?thesis
      by (auto split: outcome.splits)
  qed
qed

theorem Get_first_match_witness:
  "Validate sample_consumed arn_profile_config = None \<and>
   IsARN (ProfileName arn_profile_config) \<and>
   profile_as_role arn_profile_config =
     arn_profile_config\<lparr>AwsConfig.RoleArn := sample_role, ProfileName := []\<rparr> \<and>
   decision (profile_as_role arn_profile_config) = AssumeRoleVariant \<and>
   (\<exists>cl. Get sample_consumed sample_factory (Some arn_profile_config) =
           Returns (Inr (AssumeRoleClient cl), Some (profile_as_role arn_profile_config)))"
proof -
  let ?cfg = "profile_as_role arn_profile_config"
  have n: "ProfileName arn_profile_config = sample_role"
    by (simp add: arn_profile_config_def)
  have e: "?cfg = arn_profile_config\<lparr>AwsConfig.RoleArn := sample_role, ProfileName := []\<rparr>"
    using Get_first_match [OF sample_Validate(6) refl refl, of sample_factory] n sample_IsARN
    by simp
  have "decision (arn_profile_config\<lparr>AwsConfig.RoleArn := sample_role, ProfileName := []\<rparr>) =
          AssumeRoleVariant"
    by (simp add: decision_def arn_profile_config_def role_config_def sample_role_def)
  with e have v: "decision ?cfg = AssumeRoleVariant"
    by simp
  have "RoleCredentialDuration sample_consumed
          (arn_profile_config\<lparr>AwsConfig.RoleArn := sample_role, ProfileName := []\<rparr>) \<le>
        AssumeRoleDurationDefault sample_consumed"
    by (simp add: sample_consumed_def arn_profile_config_def role_config_def)
  with e have t: "RoleCredentialDuration sample_consumed ?cfg \<le> AssumeRoleDurationDefault sample_consumed"
    by simp
  obtain sc where "sessionClient sample_consumed sample_factory ?cfg
                     (role_session_options sample_factory ?cfg) = Returns sc"
    using sessionClient_ok [OF sample_session] by blast
  then obtain cl where "roleClient sample_consumed sample_factory ?cfg
                          (session_options sample_factory ?cfg) = Returns cl"
    using roleClient_short [OF t sample_session] by blast
  then have "Get sample_consumed sample_factory (Some arn_profile_config) =
               Returns (Inr (AssumeRoleClient cl), Some ?cfg)"
    using Get_first_match [OF sample_Validate(6) refl refl, of sample_factory] v
    by simp
  then show ?thesis
    using e v n sample_IsARN sample_Validate(6) by auto
qed

text \<open>
  Claim C2, as the code has it.  The configuration passes validation and has both a
  SAML URL and a jump role, the session and the identity-provider client can be
  built, and the fetch of the initial assertion succeeds.  Then \<open>Get\<close> returns an
  Assume-Role client for the configured role ARN whose identity source is the
  identity-provider client of the SAML-role client built on the way, so that its
  \<open>Identity\<close> and \<open>Roles\<close> answer what that client's do; the SAML-role client's
  provider targets the jump role and supplies the session's credentials; and the
  duration is \<open>AssumeRoleDurationDefault\<close>, whatever duration the configuration asks
  for.
\<close>

theorem Get_jump_role_chain:
  assumes "Validate d cfg0 = None"
    and "cfg = profile_as_role cfg0"
    and "SamlUrl cfg \<noteq> []" and "JumpRoleArn cfg \<noteq> []"
    and "NewSessionWithOptions d ((session_options f cfg)\<lparr>Profile := []\<rparr>) = Inr ses"
    and "MustGetSamlClient d (SamlProvider cfg) (SamlUrl cfg) (saml_auth_config d f cfg) = Returns sc"
    and "SamlAssertion d (SetCookieJar sc (cookieJar d)) = (assertion, None)"
  shows "\<exists>roleCl baseCl.
           Get d f (Some cfg0) = Returns (Inr (AssumeRoleClient roleCl), Some cfg) \<and>
           samlRoleClient.samlClient baseCl = SetCookieJar sc (cookieJar d) \<and>
           SamlRoleProvider.RoleArn (samlRoleClient.roleProvider baseCl) = JumpRoleArn cfg \<and>
           samlAssertion (samlRoleClient.roleProvider baseCl) = assertion \<and>
           Credentials (assumeRoleClient.session roleCl) =
             SamlRoleCredentials (samlRoleClient.roleProvider baseCl) \<and>
           assumeRoleClient.ident roleCl = SamlIdentity (samlRoleClient.samlClient baseCl) \<and>
           assumeRoleClient_Identity d roleCl = samlRoleClient_Identity d baseCl \<and>
           assumeRoleClient_Roles d roleCl = samlRoleClient_Roles d baseCl \<and>
           AssumeRoleClientConfig.RoleArn (assumeRoleClient.config roleCl) = AwsConfig.RoleArn cfg \<and>
           SessionTokenClientConfig.Duration (assumeRoleClient.config roleCl) =
             AssumeRoleDurationDefault d"
proof -
  let ?roleCl = "\<lparr>assumeRoleClient.session =
                     ses\<lparr>Credentials := SamlRoleCredentials (jump_provider d f cfg assertion)\<rparr>,
                   assumeRoleClient.config = chained_config d f cfg,
                   assumeRoleClient.ident = SamlIdentity (SetCookieJar sc (cookieJar d))\<rparr>"
  let ?baseCl = "\<lparr>samlRoleClient.samlClient = SetCookieJar sc (cookieJar d),
                   samlRoleClient.roleProvider = jump_provider d f cfg assertion,
                   samlRoleClient.session = ses\<rparr>"
  have "samlClient d f cfg (resolve_credentials d f (SamlUrl cfg)) (session_options f cfg) =
          Returns (Inr (AssumeRoleClient ?roleCl))"
    using assms(4-7) by (rule samlClient_jump_value)
  then have "Get d f (Some cfg0) = Returns (Inr (AssumeRoleClient ?roleCl), Some cfg)"
    using assms(1-3) by (simp add: Get_valid decision_def with_cfg_def Let_def)
  then show ?thesis
    by (intro exI [of _ ?roleCl] exI [of _ ?baseCl])
       (simp add: jump_provider_def chained_config_def assumeRoleClient_Identity_def
          assumeRoleClient_Roles_def samlRoleClient_Identity_def samlRoleClient_Roles_def)
qed

theorem Get_jump_role_chain_witness:
  "Validate sample_consumed jump_config = None \<and>
   SamlUrl jump_config \<noteq> [] \<and> JumpRoleArn jump_config \<noteq> [] \<and>
   RoleCredentialDuration sample_consumed jump_config = 43200 \<and>
   (\<exists>roleCl baseCl.
      Get sample_consumed sample_factory (Some jump_config) =
        Returns (Inr (AssumeRoleClient roleCl), Some jump_config) \<and>
      SamlRoleProvider.RoleArn (samlRoleClient.roleProvider baseCl) =
        ''arn:aws:iam::210987654321:role/Jump'' \<and>
      samlAssertion (samlRoleClient.roleProvider baseCl) = Some ''PHNhbWw+'' \<and>
      Credentials (assumeRoleClient.session roleCl) =
        SamlRoleCredentials (samlRoleClient.roleProvider baseCl) \<and>
      assumeRoleClient.ident roleCl = SamlIdentity (samlRoleClient.samlClient baseCl) \<and>
      assumeRoleClient_Identity sample_consumed roleCl = samlRoleClient_Identity sample_consumed baseCl \<and>
      assumeRoleClient_Roles sample_consumed roleCl = samlRoleClient_Roles sample_consumed baseCl \<and>
      SessionTokenClientConfig.Duration (assumeRoleClient.config roleCl) = 3600)"
proof -
  obtain sc where sc: "MustGetSamlClient sample_consumed (SamlProvider jump_config) (SamlUrl jump_config)
                         (saml_auth_config sample_consumed sample_factory jump_config) = Returns sc"
    and u: "Username sc = ''alice''"
    using sample_saml_client
            [of "SamlProvider jump_config" "SamlUrl jump_config"
                "saml_auth_config sample_consumed sample_factory jump_config"]
    by (auto simp add: sample_profile_as_role sample_Validate Username_SetCookieJar Username_saml_auth_config sample_fields)
  have a: "SamlAssertion sample_consumed (SetCookieJar sc (cookieJar sample_consumed)) =
             (Some ''PHNhbWw+'', None)"
    using u by (simp add: sample_fetch Username_SetCookieJar)
  have p: "jump_config = profile_as_role jump_config" and s: "SamlUrl jump_config \<noteq> []"
    and j: "JumpRoleArn jump_config \<noteq> []"
    by (simp_all add: sample_profile_as_role sample_Validate Username_SetCookieJar Username_saml_auth_config sample_fields)
  obtain roleCl baseCl where
    "Get sample_consumed sample_factory (Some jump_config) =
       Returns (Inr (AssumeRoleClient roleCl), Some jump_config)"
    "SamlRoleProvider.RoleArn (samlRoleClient.roleProvider baseCl) = JumpRoleArn jump_config"
    "samlAssertion (samlRoleClient.roleProvider baseCl) = Some ''PHNhbWw+''"
    "Credentials (assumeRoleClient.session roleCl) =
       SamlRoleCredentials (samlRoleClient.roleProvider baseCl)"
    "assumeRoleClient.ident roleCl = SamlIdentity (samlRoleClient.samlClient baseCl)"
    "assumeRoleClient_Identity sample_consumed roleCl = samlRoleClient_Identity sample_consumed baseCl"
    "assumeRoleClient_Roles sample_consumed roleCl = samlRoleClient_Roles sample_consumed baseCl"
    "SessionTokenClientConfig.Duration (assumeRoleClient.config roleCl) =
       AssumeRoleDurationDefault sample_consumed"
    using Get_jump_role_chain [OF sample_Validate(3) p s j sample_session sc a]
    by blast
  then show ?thesis
    by (intro conjI exI [of _ roleCl] exI [of _ baseCl]) (simp_all add: sample_profile_as_role sample_Validate Username_SetCookieJar Username_saml_auth_config sample_fields)
qed

text \<open>
  The claim as written holds for every configuration with both fields set.  For the
  user \<open>mallory\<close>, whose assertion fetch fails, \<open>Get\<close> returns that error and no
  client.
\<close>

theorem Get_jump_role_fetch_fails_counterexample:
  "Validate sample_consumed (locked_out jump_config) = None \<and>
   SamlUrl (locked_out jump_config) \<noteq> [] \<and> JumpRoleArn (locked_out jump_config) \<noteq> [] \<and>
   Get sample_consumed sample_factory (Some (locked_out jump_config)) =
     Returns (Inl (ErrorString ''authentication failed''), Some (locked_out jump_config))"
proof -
  let ?cfg = "locked_out jump_config"
  obtain sc where sc: "MustGetSamlClient sample_consumed (SamlProvider ?cfg) (SamlUrl ?cfg)
                         (saml_auth_config sample_consumed sample_factory ?cfg) = Returns sc"
    and u: "Username sc = ''mallory''"
    using sample_saml_client
            [of "SamlProvider ?cfg" "SamlUrl ?cfg" "saml_auth_config sample_consumed sample_factory ?cfg"]
    by (auto simp add: sample_profile_as_role sample_Validate Username_SetCookieJar Username_saml_auth_config sample_fields)
  have a: "SamlAssertion sample_consumed (SetCookieJar sc (cookieJar sample_consumed)) =
             (None, Some (ErrorString ''authentication failed''))"
    using u by (simp add: sample_fetch Username_SetCookieJar)
  have p: "?cfg = profile_as_role ?cfg" and s: "SamlUrl ?cfg \<noteq> []" and j: "JumpRoleArn ?cfg \<noteq> []"
    by (simp_all add: sample_profile_as_role sample_Validate Username_SetCookieJar Username_saml_auth_config sample_fields)
  show ?thesis
    using Get_jump_fetch_failed [OF sample_Validate(5) p s j sample_session sc a]
    by (simp add: sample_profile_as_role sample_Validate Username_SetCookieJar Username_saml_auth_config sample_fields)
qed

text \<open>
  Claim C7.  The configuration passes validation, has neither a SAML nor a Web
  Identity URL, has a role ARN, and its role credential duration is at most
  \<open>AssumeRoleDurationDefault\<close>; the session can be built.  Then \<open>Get\<close> returns an
  Assume-Role client whose MFA serial number is empty, whose session takes its
  credentials from the Session-Token client that \<open>sessionClient\<close> builds for the same
  configuration and options, and whose identity source is that client's.
\<close>

theorem Get_role_with_session_token:
  assumes "Validate d cfg0 = None"
    and "cfg = profile_as_role cfg0"
    and "SamlUrl cfg0 = []" and "WebIdentityUrl cfg0 = []" and "AwsConfig.RoleArn cfg0 \<noteq> []"
    and "RoleCredentialDuration d cfg \<le> AssumeRoleDurationDefault d"
    and "NewSessionWithOptions d (role_session_options f cfg) = Inr ses"
  shows "\<exists>cl sc.
           Get d f (Some cfg0) = Returns (Inr (AssumeRoleClient cl), Some cfg) \<and>
           sessionClient d f cfg (role_session_options f cfg) = Returns sc \<and>
           SerialNumber (assumeRoleClient.config cl) = [] \<and>
           Credentials (assumeRoleClient.session cl) = creds sc \<and>
           assumeRoleClient.ident cl = sessionTokenClient.ident sc \<and>
           assumeRoleClient_Identity d cl = Identity d (sessionTokenClient.ident sc) \<and>
           assumeRoleClient_Roles d cl = Roles d (sessionTokenClient.ident sc)"
proof -
  obtain sc where sc: "sessionClient d f cfg (role_session_options f cfg) = Returns sc"
    using sessionClient_ok [OF assms(7)] by blast
  obtain cl where cl: "roleClient d f cfg (session_options f cfg) = Returns cl"
    and p: "SerialNumber (assumeRoleClient.config cl) = []"
      "Credentials (assumeRoleClient.session cl) = creds sc"
      "assumeRoleClient.ident cl = sessionTokenClient.ident sc"
    using roleClient_short [OF assms(6,7) sc] by blast
  have "decision cfg = AssumeRoleVariant"
    using assms(2-5) by (simp add: decision_def profile_as_role_RoleArn profile_as_role_urls)
  then have "Get d f (Some cfg0) = Returns (Inr (AssumeRoleClient cl), Some cfg)"
    using assms(1,2) cl by (simp add: Get_valid Let_def)
  with sc p show ?thesis
    by (simp add: assumeRoleClient_Identity_def assumeRoleClient_Roles_def)
qed

theorem Get_role_with_session_token_witness:
  "Validate sample_consumed role_config = None \<and>
   SamlUrl role_config = [] \<and> WebIdentityUrl role_config = [] \<and>
   AwsConfig.RoleArn role_config = sample_role \<and>
   MfaSerial role_config = ''arn:aws:iam::123456789012:mfa/alice'' \<and>
   RoleCredentialDuration sample_consumed role_config \<le> AssumeRoleDurationDefault sample_consumed \<and>
   (\<exists>cl sc.
      Get sample_consumed sample_factory (Some role_config) =
        Returns (Inr (AssumeRoleClient cl), Some role_config) \<and>
      sessionClient sample_consumed sample_factory role_config
          (role_session_options sample_factory role_config) = Returns sc \<and>
      SerialNumber (assumeRoleClient.config cl) = [] \<and>
      Credentials (assumeRoleClient.session cl) = creds sc \<and>
      assumeRoleClient.ident cl = sessionTokenClient.ident sc)"
proof -
  have f: "SamlUrl role_config = []" "WebIdentityUrl role_config = []"
    "AwsConfig.RoleArn role_config = sample_role"
    "MfaSerial role_config = ''arn:aws:iam::123456789012:mfa/alice''"
    by (simp_all add: role_config_def)
  have r: "AwsConfig.RoleArn role_config \<noteq> []"
    by (simp add: role_config_def sample_role_def)
  have t: "RoleCredentialDuration sample_consumed role_config \<le> AssumeRoleDurationDefault sample_consumed"
    by (simp add: sample_consumed_def role_config_def)
  have p: "role_config = profile_as_role role_config"
    by (simp add: sample_profile_as_role)
  obtain cl sc where
    "Get sample_consumed sample_factory (Some role_config) =
       Returns (Inr (AssumeRoleClient cl), Some role_config)"
    "sessionClient sample_consumed sample_factory role_config
       (role_session_options sample_factory role_config) = Returns sc"
    "SerialNumber (assumeRoleClient.config cl) = []"
    "Credentials (assumeRoleClient.session cl) = creds sc"
    "assumeRoleClient.ident cl = sessionTokenClient.ident sc"
    using Get_role_with_session_token
            [OF sample_Validate(1) p f(1,2) r t sample_session, where f = sample_factory]
    by blast
  with f t show ?thesis
    by (intro conjI exI [of _ cl] exI [of _ sc]) (simp_all add: sample_profile_as_role sample_Validate Username_SetCookieJar Username_saml_auth_config sample_fields)
qed

text \<open>
  Claim C10.  The configuration passes validation and has a SAML URL, the session and
  the identity-provider client can be built, and the fetch of the initial assertion
  fails with \<open>err\<close>.  Without a jump role \<open>Get\<close> still returns a SAML-role client and
  a nil error, the provider holding whatever assertion came with the error; with a
  jump role \<open>Get\<close> returns no client and \<open>err\<close>.
\<close>

theorem Get_saml_fetch_failure:
  assumes "Validate d cfg0 = None"
    and "cfg = profile_as_role cfg0"
    and "SamlUrl cfg \<noteq> []"
    and "NewSessionWithOptions d ((session_options f cfg)\<lparr>Profile := []\<rparr>) = Inr ses"
    and "MustGetSamlClient d (SamlProvider cfg) (SamlUrl cfg) (saml_auth_config d f cfg) = Returns sc"
    and "SamlAssertion d (SetCookieJar sc (cookieJar d)) = (assertion, Some err)"
  shows "(JumpRoleArn cfg = [] \<longrightarrow>
            (\<exists>cl. Get d f (Some cfg0) = Returns (Inr (SamlRoleClient cl), Some cfg) \<and>
                  samlAssertion (samlRoleClient.roleProvider cl) = assertion)) \<and>
         (JumpRoleArn cfg \<noteq> [] \<longrightarrow>
            Get d f (Some cfg0) = Returns (Inl err, Some cfg))"
proof (intro conjI impI)
  assume j: "JumpRoleArn cfg = []"
  obtain cl where "samlClient d f cfg (resolve_credentials d f (SamlUrl cfg)) (session_options f cfg) =
                Returns (Inr (SamlRoleClient cl))"
    and "samlAssertion (samlRoleClient.roleProvider cl) =
                fst (SamlAssertion d (SetCookieJar sc (cookieJar d)))"
    using samlClient_plain [OF j assms(4,5)] by blast
  then show "\<exists>cl. Get d f (Some cfg0) = Returns (Inr (SamlRoleClient cl), Some cfg) \<and>
                  samlAssertion (samlRoleClient.roleProvider cl) = assertion"
    using assms(1-3,6) by (simp add: Get_valid decision_def with_cfg_def Let_def)
next
  assume j: "JumpRoleArn cfg \<noteq> []"
  have "samlClient d f cfg (resolve_credentials d f (SamlUrl cfg)) (session_options f cfg) =
          Returns (Inl err)"
    using j assms(4-6) by (rule samlClient_jump_failed)
  then show "Get d f (Some cfg0) = Returns (Inl err, Some cfg)"
    using assms(1-3) by (simp add: Get_valid decision_def with_cfg_def Let_def)
qed

theorem Get_saml_fetch_failure_witness:
  "JumpRoleArn (locked_out saml_config) = [] \<and>
   (\<exists>cl. Get sample_consumed sample_factory (Some (locked_out saml_config)) =
           Returns (Inr (SamlRoleClient cl), Some (locked_out saml_config)) \<and>
         samlAssertion (samlRoleClient.roleProvider cl) = None) \<and>
   JumpRoleArn (locked_out jump_config) \<noteq> [] \<and>
   Get sample_consumed sample_factory (Some (locked_out jump_config)) =
     Returns (Inl (ErrorString ''authentication failed''), Some (locked_out jump_config))"
proof -
  let ?plain = "locked_out saml_config" and ?jump = "locked_out jump_config"
  obtain sc1 where sc1: "MustGetSamlClient sample_consumed (SamlProvider ?plain) (SamlUrl ?plain)
                         (saml_auth_config sample_consumed sample_factory ?plain) = Returns sc1"
    and u1: "Username sc1 = ''mallory''"
    using sample_saml_client
            [of "SamlProvider ?plain" "SamlUrl ?plain"
                "saml_auth_config sample_consumed sample_factory ?plain"]
    by (auto simp add: sample_profile_as_role sample_Validate Username_SetCookieJar Username_saml_auth_config sample_fields)
  obtain sc2 where sc2: "MustGetSamlClient sample_consumed (SamlProvider ?jump) (SamlUrl ?jump)
                         (saml_auth_config sample_consumed sample_factory ?jump) = Returns sc2"
    and u2: "Username sc2 = ''mallory''"
    using sample_saml_client
            [of "SamlProvider ?jump" "SamlUrl ?jump"
                "saml_auth_config sample_consumed sample_factory ?jump"]
    by (auto simp add: sample_profile_as_role sample_Validate Username_SetCookieJar Username_saml_auth_config sample_fields)
  have a1: "SamlAssertion sample_consumed (SetCookieJar sc1 (cookieJar sample_consumed)) =
             (None, Some (ErrorString ''authentication failed''))"
    and a2: "SamlAssertion sample_consumed (SetCookieJar sc2 (cookieJar sample_consumed)) =
             (None, Some (ErrorString ''authentication failed''))"
    using u1 u2 by (simp_all add: sample_fetch Username_SetCookieJar)
  have p1: "?plain = profile_as_role ?plain" and s1: "SamlUrl ?plain \<noteq> []"
    and p2: "?jump = profile_as_role ?jump" and s2: "SamlUrl ?jump \<noteq> []"
    by (simp_all add: sample_profile_as_role sample_Validate Username_SetCookieJar Username_saml_auth_config sample_fields)
  show ?thesis
    using Get_saml_fetch_failure [OF sample_Validate(4) p1 s1 sample_session sc1 a1]
          Get_saml_fetch_failure [OF sample_Validate(5) p2 s2 sample_session sc2 a2]
    by (simp add: sample_profile_as_role sample_Validate Username_SetCookieJar Username_saml_auth_config sample_fields)
qed

end
